theory Spec2Isabelle
  imports Complex_Main
begin

section \<open>The FMC API client (client.py) as a state-passing program\<close>

text \<open>
  The client talks to one HTTP server. Every exchange of the source
  (\<^verbatim>\<open>self._client.post\<close>, \<^verbatim>\<open>self._client.request\<close>) is a call of a
  server function: it sees the events so far and the request, and either answers or makes httpx
  raise. Suspensions (\<^verbatim>\<open>asyncio.sleep\<close>, the rate limiter's \<^verbatim>\<open>acquire\<close>) are events
  of the same log, so that the number and order of the calls a function issues can be read off
  the final state. Logging is not modelled.
\<close>

subsection \<open>Python values\<close>

datatype json =
    JNull
  | JBool bool
  | JInt int
  | JStr string
  | JList "json list"
  | JObj "(string \<times> json) list"

text \<open>Truthiness of \<^verbatim>\<open>str | None\<close>: \<^verbatim>\<open>None\<close> and the empty string are false.\<close>

fun truthy :: "string option \<Rightarrow> bool" where
  "truthy None = False"
| "truthy (Some v) = (v \<noteq> [])"

text \<open>\<^verbatim>\<open>d[k] = v\<close> on a dict: an existing key keeps its place, a new key goes last.\<close>

fun set_item :: "'k \<Rightarrow> 'v \<Rightarrow> ('k \<times> 'v) list \<Rightarrow> ('k \<times> 'v) list" where
  "set_item k v [] = [(k, v)]"
| "set_item k v ((k', v') # d) = (if k' = k then (k, v) # d else (k', v') # set_item k v d)"

subsection \<open>Requests, responses, events\<close>

text \<open>
  A header value of a request is a string, Python's \<^verbatim>\<open>None\<close> (the source assigns
  \<^verbatim>\<open>self._access_token\<close> unchecked), or the Basic credential, kept symbolic:
  \<open>Basic u p\<close> stands for \<^verbatim>\<open>f"Basic {b64encode(f'{u}:{p}')}"\<close>.
\<close>

datatype header_value = Str string | PyNone | Basic string string

fun of_token :: "string option \<Rightarrow> header_value" where
  "of_token None = PyNone"
| "of_token (Some v) = Str v"

record request =
  rq_method :: string
  rq_path :: string
  rq_headers :: "(string \<times> header_value) list"
  rq_params :: "(string \<times> json) list"

text \<open>
  A response: its status, its headers (the mapping httpx gives; httpx compares header names
  without regard to case, here they are keyed as the client spells them), its text, and what
  \<^verbatim>\<open>response.json()\<close> returns (\<open>None\<close>: it raises). JSON numbers with a fraction are
  not modelled.
\<close>

record response =
  status_code :: int
  headers :: "(string \<times> string) list"
  text_body :: string
  json_body :: "json option"

definition headers_get :: "response \<Rightarrow> string \<Rightarrow> string option" where
  "headers_get r name = map_of (headers r) name"

datatype outcome = Response response | Raises string

datatype event =
    Http request
  | Sleep int
  | RateLimiterAcquire
  | SessionOpened
  | SessionClosed

type_synonym server = "event list \<Rightarrow> request \<Rightarrow> outcome"

text \<open>
  The exceptions of the source. \<open>NotInitialized\<close> is
  \<^verbatim>\<open>RuntimeError("Client not initialized. Call connect() first.")\<close>;
  \<open>AuthenticationFailed c\<close> is \<^verbatim>\<open>RuntimeError(f"FMC authentication failed: {c}")\<close>,
  whose only variable part is the status code; \<open>HTTPStatusError r\<close> is what
  \<^verbatim>\<open>raise_for_status\<close> raises, holding the response; \<open>Raised e\<close> is an exception that
  came out of httpx.
\<close>

datatype error =
    NotInitialized
  | AuthenticationFailed int
  | ValueError
  | HTTPStatusError response
  | Raised string
  | JSONDecodeError
  | AttributeError
  | TypeError
  | OverflowError
  | ZeroDivisionError

subsection \<open>Settings and client state\<close>

record FMCSettings =
  fmc_host :: string
  fmc_username :: string
  fmc_password :: string
  fmc_verify_ssl :: bool
  fmc_domain_uuid :: "string option"
  fmc_timeout :: int
  fmc_rate_limit :: int
  fmc_max_connections :: int

text \<open>
  The fields of \<^verbatim>\<open>FMCClient\<close>; \<open>priv_x\<close> is the attribute \<^verbatim>\<open>self._x\<close>.
  \<open>priv_client\<close> says whether \<^verbatim>\<open>self._client\<close> is set.
\<close>

record FMCClient =
  settings :: FMCSettings
  priv_client :: bool
  priv_access_token :: "string option"
  priv_refresh_token :: "string option"
  priv_domain_uuid :: "string option"
  priv_refresh_count :: int
  priv_max_refreshes :: int
  log :: "event list"

definition init :: "FMCSettings \<Rightarrow> FMCClient" where
  "init st =
     \<lparr>settings = st, priv_client = False, priv_access_token = None,
      priv_refresh_token = None, priv_domain_uuid = fmc_domain_uuid st,
      priv_refresh_count = 0, priv_max_refreshes = 3, log = []\<rparr>"

definition default_domain_uuid :: string where
  "default_domain_uuid = ''e276abec-e0f2-11e3-8169-6d9ed49b625f''"

definition domain_uuid :: "FMCClient \<Rightarrow> string" where
  "domain_uuid s =
     (if truthy (priv_domain_uuid s) then the (priv_domain_uuid s) else default_domain_uuid)"

text \<open>One exchange with the server: the request is logged, the server's outcome returned.\<close>

definition exchange :: "server \<Rightarrow> request \<Rightarrow> FMCClient \<Rightarrow> outcome \<times> FMCClient" where
  "exchange srv rq s = (srv (log s) rq, s\<lparr>log := log s @ [Http rq]\<rparr>)"

subsection \<open>Authentication and token refresh\<close>

definition generatetoken_request :: "FMCClient \<Rightarrow> request" where
  "generatetoken_request s =
     \<lparr>rq_method = ''POST'', rq_path = ''/api/fmc_platform/v1/auth/generatetoken'',
      rq_headers = [(''Authorization'',
                     Basic (fmc_username (settings s)) (fmc_password (settings s)))],
      rq_params = []\<rparr>"

definition discover_domain :: "response \<Rightarrow> FMCClient \<Rightarrow> FMCClient" where
  "discover_domain r s =
     (if \<not> truthy (priv_domain_uuid s) then
        (if truthy (headers_get r ''DOMAIN_UUID'')
         then s\<lparr>priv_domain_uuid := headers_get r ''DOMAIN_UUID''\<rparr> else s)
      else s)"

definition authenticate :: "server \<Rightarrow> FMCClient \<Rightarrow> (error + unit) \<times> FMCClient" where
  "authenticate srv s =
     (if \<not> priv_client s then (Inl NotInitialized, s)
      else case exchange srv (generatetoken_request s) s of
          (Raises e, s1) \<Rightarrow> (Inl (Raised e), s1)
        | (Response r, s1) \<Rightarrow>
            if status_code r \<noteq> 204 then (Inl (AuthenticationFailed (status_code r)), s1)
            else (Inr (),
                  discover_domain r
                    (s1\<lparr>priv_access_token := headers_get r ''X-auth-access-token'',
                        priv_refresh_token := headers_get r ''X-auth-refresh-token'',
                        priv_refresh_count := 0\<rparr>)))"

definition connect :: "server \<Rightarrow> FMCClient \<Rightarrow> (error + unit) \<times> FMCClient" where
  "connect srv s =
     (if priv_client s then (Inr (), s)
      else authenticate srv (s\<lparr>priv_client := True, log := log s @ [SessionOpened]\<rparr>))"

text \<open>
  \<^verbatim>\<open>close\<close>; httpx's \<^verbatim>\<open>aclose\<close> is taken to return.
\<close>

definition close :: "FMCClient \<Rightarrow> (error + unit) \<times> FMCClient" where
  "close s =
     (if priv_client s then
        (Inr (), s\<lparr>log := log s @ [SessionClosed], priv_client := False,
                   priv_access_token := None, priv_refresh_token := None\<rparr>)
      else (Inr (), s))"

definition refreshtoken_request :: "FMCClient \<Rightarrow> request" where
  "refreshtoken_request s =
     \<lparr>rq_method = ''POST'', rq_path = ''/api/fmc_platform/v1/auth/refreshtoken'',
      rq_headers =
        (if truthy (priv_access_token s)
         then [(''X-auth-access-token'', of_token (priv_access_token s))] else []) @
        (if truthy (priv_refresh_token s)
         then [(''X-auth-refresh-token'', of_token (priv_refresh_token s))] else []),
      rq_params = []\<rparr>"

text \<open>\<^verbatim>\<open>await self._authenticate(); return True\<close>\<close>

definition authenticate_return_True :: "server \<Rightarrow> FMCClient \<Rightarrow> (error + bool) \<times> FMCClient" where
  "authenticate_return_True srv s =
     (case authenticate srv s of
        (Inl e, s') \<Rightarrow> (Inl e, s')
      | (Inr _, s') \<Rightarrow> (Inr True, s'))"

text \<open>
  The \<^verbatim>\<open>try\<close> block holds the refresh call and, for a status other than 204, a call of
  \<^verbatim>\<open>_authenticate\<close>; \<^verbatim>\<open>except Exception\<close> catches what either raises and calls
  \<^verbatim>\<open>_authenticate\<close> (again), whose own exception leaves the function.
\<close>

definition refresh_auth_token :: "server \<Rightarrow> FMCClient \<Rightarrow> (error + bool) \<times> FMCClient" where
  "refresh_auth_token srv s =
     (if \<not> priv_client s \<or> \<not> truthy (priv_refresh_token s) then (Inr False, s)
      else if priv_refresh_count s \<ge> priv_max_refreshes s then authenticate_return_True srv s
      else case exchange srv (refreshtoken_request s) s of
          (Raises e, s1) \<Rightarrow> authenticate_return_True srv s1
        | (Response r, s1) \<Rightarrow>
            if status_code r = 204 then
              (Inr True,
               s1\<lparr>priv_access_token := headers_get r ''X-auth-access-token'',
                   priv_refresh_token := headers_get r ''X-auth-refresh-token'',
                   priv_refresh_count := priv_refresh_count s1 + 1\<rparr>)
            else (case authenticate srv s1 of
                    (Inr _, s2) \<Rightarrow> (Inr True, s2)
                  | (Inl e, s2) \<Rightarrow> authenticate_return_True srv s2))"

subsection \<open>Python's \<^verbatim>\<open>float(int)\<close>\<close>

text \<open>
  The conversion of an int to a double rounds to 53 significant bits, ties to even, and raises
  \<^verbatim>\<open>OverflowError\<close> (here \<open>None\<close>) when the result would be \<open>2 ^ 1024\<close> or more. The
  double it gives is an integer again, so the result is given as one. \<open>bits n\<close> is the
  length of \<open>n\<close> in binary.
\<close>

function bits :: "int \<Rightarrow> nat" where
  "bits n = (if n \<le> 0 then 0 else Suc (bits (n div 2)))"
  by pat_completeness auto
termination
  by (relation "measure nat") auto

declare bits.simps [simp del]

definition float_of_int :: "int \<Rightarrow> int option" where
  "float_of_int n =
     (let a = \<bar>n\<bar>; e = bits a - 53; q = a div 2 ^ e; r = a mod 2 ^ e;
          m = (if 2 * r > 2 ^ e \<or> (2 * r = 2 ^ e \<and> odd q) then q + 1 else q)
      in if m * 2 ^ e \<ge> 2 ^ 1024 then None else Some (sgn n * (m * 2 ^ e)))"

subsection \<open>Python's \<^verbatim>\<open>int(str)\<close>\<close>

text \<open>
  Base 10: surrounding whitespace is dropped, one sign is allowed, digits may be grouped by
  single underscores, and more than 4300 digits are refused (the default limit of CPython
  3.11). A character stands for the code point of its number, 0 to 255: the whitespace
  \<^verbatim>\<open>int\<close> drops is the ASCII one (9 to 13 and 32, not 28 to 31) and, beyond ASCII, the
  spaces U+0085 and U+00A0; there is no decimal digit beyond ASCII in this range.
\<close>

definition is_space :: "char \<Rightarrow> bool" where
  "is_space c = ((of_char c :: nat) \<in> {9, 10, 11, 12, 13, 32, 133, 160})"

definition is_digit :: "char \<Rightarrow> bool" where
  "is_digit c = (48 \<le> (of_char c :: nat) \<and> (of_char c :: nat) \<le> 57)"

definition digit_val :: "char \<Rightarrow> int" where
  "digit_val c = int (of_char c) - 48"

definition strip :: "string \<Rightarrow> string" where
  "strip v = rev (dropWhile is_space (rev (dropWhile is_space v)))"

fun digits :: "int \<Rightarrow> string \<Rightarrow> int option" where
  "digits acc [] = Some acc"
| "digits acc (c # cs) =
     (if is_digit c then digits (10 * acc + digit_val c) cs
      else if c = CHR ''_'' then
        (case cs of
           [] \<Rightarrow> None
         | d # ds \<Rightarrow> if is_digit d then digits (10 * acc + digit_val d) ds else None)
      else None)"

definition unsigned :: "string \<Rightarrow> int option" where
  "unsigned v = (case v of [] \<Rightarrow> None
     | d # ds \<Rightarrow> if is_digit d then digits (digit_val d) ds else None)"

definition py_int :: "string \<Rightarrow> int option" where
  "py_int v =
     (let t = strip v in
      if length (filter is_digit t) > 4300 then None
      else case t of
          [] \<Rightarrow> None
        | c # cs \<Rightarrow>
            if c = CHR ''-'' then map_option uminus (unsigned cs)
            else if c = CHR ''+'' then unsigned cs
            else unsigned t)"

subsection \<open>Request dispatch\<close>

text \<open>
  The keyword arguments of \<^verbatim>\<open>_request\<close> that the repository uses: \<^verbatim>\<open>headers\<close>
  (the empty dict when absent) and \<^verbatim>\<open>params\<close>.
\<close>

record kwargs =
  kw_headers :: "(string \<times> header_value) list"
  kw_params :: "(string \<times> json) list"

definition api_request ::
  "string \<Rightarrow> string \<Rightarrow> (string \<times> header_value) list \<Rightarrow> kwargs \<Rightarrow> request" where
  "api_request method path hs kw =
     \<lparr>rq_method = method, rq_path = path, rq_headers = hs, rq_params = kw_params kw\<rparr>"

text \<open>
  \<^verbatim>\<open>self._client.request(method, path, headers=headers, **kwargs)\<close>: an exception of
  httpx leaves \<^verbatim>\<open>_request\<close>.
\<close>

definition send ::
  "server \<Rightarrow> string \<Rightarrow> string \<Rightarrow> (string \<times> header_value) list \<Rightarrow> kwargs \<Rightarrow> FMCClient
   \<Rightarrow> (error + response) \<times> FMCClient" where
  "send srv method path hs kw s =
     (case exchange srv (api_request method path hs kw) s of
        (Raises e, s') \<Rightarrow> (Inl (Raised e), s')
      | (Response r, s') \<Rightarrow> (Inr r, s'))"

text \<open>
  The block \<^verbatim>\<open>if response.status_code == 401\<close> of \<^verbatim>\<open>_request\<close>: it returns the
  headers dict and the response the rest of the function goes on with. The value
  \<^verbatim>\<open>_refresh_auth_token\<close> returns is not looked at.
\<close>

definition handle_401 ::
  "server \<Rightarrow> string \<Rightarrow> string \<Rightarrow> kwargs \<Rightarrow> (string \<times> header_value) list \<Rightarrow> response
   \<Rightarrow> FMCClient \<Rightarrow> (error + (string \<times> header_value) list \<times> response) \<times> FMCClient" where
  "handle_401 srv method path kw hs r s =
     (if status_code r = 401 then
        (case refresh_auth_token srv s of
           (Inl e, s1) \<Rightarrow> (Inl e, s1)
         | (Inr _, s1) \<Rightarrow>
             (let hs' = set_item ''X-auth-access-token'' (of_token (priv_access_token s1)) hs
              in case send srv method path hs' kw s1 of
                   (Inl e, s2) \<Rightarrow> (Inl e, s2)
                 | (Inr r', s2) \<Rightarrow> (Inr (hs', r'), s2)))
      else (Inr (hs, r), s))"

text \<open>The block \<^verbatim>\<open>if response.status_code == 429\<close> of \<^verbatim>\<open>_request\<close>.\<close>

definition retry_after :: "response \<Rightarrow> int option" where
  "retry_after r =
     py_int (case headers_get r ''Retry-After'' of None \<Rightarrow> ''60'' | Some v \<Rightarrow> v)"

text \<open>
  \<^verbatim>\<open>asyncio.sleep(n)\<close> for an int \<open>n\<close>: a delay of 0 or less returns at once; any other
  delay is added to the loop's clock, a float, and a delay too large for a float raises there.
\<close>

definition asyncio_sleep :: "int \<Rightarrow> error + unit" where
  "asyncio_sleep n =
     (if n \<le> 0 then Inr ()
      else case float_of_int n of None \<Rightarrow> Inl OverflowError | Some d \<Rightarrow> Inr ())"

definition handle_429 ::
  "server \<Rightarrow> string \<Rightarrow> string \<Rightarrow> kwargs \<Rightarrow> (string \<times> header_value) list \<Rightarrow> response
   \<Rightarrow> FMCClient \<Rightarrow> (error + response) \<times> FMCClient" where
  "handle_429 srv method path kw hs r s =
     (if status_code r = 429 then
        (case retry_after r of
           None \<Rightarrow> (Inl ValueError, s)
         | Some n \<Rightarrow>
             (case asyncio_sleep n of
                Inl e \<Rightarrow> (Inl e, s)
              | Inr u \<Rightarrow> send srv method path hs kw (s\<lparr>log := log s @ [Sleep n]\<rparr>)))
      else (Inr r, s))"

text \<open>
  \<^verbatim>\<open>_request\<close>. The rate limiter's \<^verbatim>\<open>acquire\<close> is an event here (it is studied on its
  own below); the semaphore only bounds concurrency and is not modelled.
\<close>

definition request ::
  "server \<Rightarrow> string \<Rightarrow> string \<Rightarrow> kwargs \<Rightarrow> FMCClient \<Rightarrow> (error + response) \<times> FMCClient" where
  "request srv method path kw s =
     (if \<not> priv_client s then (Inl NotInitialized, s)
      else
        (let s0 = s\<lparr>log := log s @ [RateLimiterAcquire]\<rparr>;
             hs = set_item ''X-auth-access-token'' (of_token (priv_access_token s0))
                    (kw_headers kw)
         in case send srv method path hs kw s0 of
              (Inl e, s1) \<Rightarrow> (Inl e, s1)
            | (Inr r, s1) \<Rightarrow>
                (case handle_401 srv method path kw hs r s1 of
                   (Inl e, s2) \<Rightarrow> (Inl e, s2)
                 | (Inr (hs', r'), s2) \<Rightarrow> handle_429 srv method path kw hs' r' s2)))"

definition get :: "server \<Rightarrow> string \<Rightarrow> kwargs \<Rightarrow> FMCClient \<Rightarrow> (error + response) \<times> FMCClient" where
  "get srv path kw s = request srv ''GET'' path kw s"

text \<open>httpx's \<^verbatim>\<open>raise_for_status\<close>: every status outside 200..299 raises.\<close>

definition raise_for_status :: "response \<Rightarrow> error + response" where
  "raise_for_status r =
     (if 200 \<le> status_code r \<and> status_code r \<le> 299 then Inr r else Inl (HTTPStatusError r))"

definition response_json :: "response \<Rightarrow> error + json" where
  "response_json r = (case json_body r of None \<Rightarrow> Inl JSONDecodeError | Some j \<Rightarrow> Inr j)"

definition get_json :: "server \<Rightarrow> string \<Rightarrow> kwargs \<Rightarrow> FMCClient \<Rightarrow> (error + json) \<times> FMCClient" where
  "get_json srv path kw s =
     (case get srv path kw s of
        (Inl e, s') \<Rightarrow> (Inl e, s')
      | (Inr r, s') \<Rightarrow>
          (case raise_for_status r of
             Inl e \<Rightarrow> (Inl e, s')
           | Inr r' \<Rightarrow> (response_json r', s')))"

subsection \<open>Pagination\<close>

text \<open>\<^verbatim>\<open>data.get(key, default)\<close>: only a dict has the method.\<close>

fun dict_get :: "json \<Rightarrow> string \<Rightarrow> json \<Rightarrow> error + json" where
  "dict_get (JObj d) key dflt = Inr (case map_of d key of None \<Rightarrow> dflt | Some v \<Rightarrow> v)"
| "dict_get _ key dflt = Inl AttributeError"

text \<open>\<^verbatim>\<open>not items\<close>\<close>

fun py_not :: "json \<Rightarrow> bool" where
  "py_not JNull = True"
| "py_not (JBool b) = (\<not> b)"
| "py_not (JInt n) = (n = 0)"
| "py_not (JStr v) = (v = [])"
| "py_not (JList xs) = (xs = [])"
| "py_not (JObj d) = (d = [])"

text \<open>
  \<^verbatim>\<open>all_items.extend(items)\<close>: a list gives its elements, a string its characters, a dict
  its keys; a number is not iterable.
\<close>

fun extend :: "json list \<Rightarrow> json \<Rightarrow> error + json list" where
  "extend all_items (JList xs) = Inr (all_items @ xs)"
| "extend all_items (JStr v) = Inr (all_items @ map (\<lambda>c. JStr [c]) v)"
| "extend all_items (JObj d) = Inr (all_items @ map (\<lambda>kv. JStr (fst kv)) d)"
| "extend all_items _ = Inl TypeError"

text \<open>\<^verbatim>\<open>n >= total_count\<close> for an int \<open>n\<close>: numbers compare, anything else raises.\<close>

fun int_ge :: "int \<Rightarrow> json \<Rightarrow> error + bool" where
  "int_ge n (JInt c) = Inr (n \<ge> c)"
| "int_ge n (JBool b) = Inr (n \<ge> (if b then 1 else 0))"
| "int_ge n _ = Inl TypeError"

definition limit :: int where
  "limit = 1000"

definition page_params :: "bool \<Rightarrow> int \<Rightarrow> kwargs" where
  "page_params expanded offset =
     \<lparr>kw_headers = [],
      kw_params = [(''limit'', JInt limit), (''offset'', JInt offset)] @
                  (if expanded then [(''expanded'', JStr ''true'')] else [])\<rparr>"

text \<open>
  What one round of the \<^verbatim>\<open>while True\<close> loop does with the parsed body: \<open>Break\<close> leaves
  the loop with the accumulator, \<open>Next\<close> goes on with the next offset.
\<close>

datatype round = Break "json list" | Next "json list"

definition page_round :: "json \<Rightarrow> int \<Rightarrow> json list \<Rightarrow> error + round" where
  "page_round data offset all_items =
     (case dict_get data ''items'' (JList []) of
        Inl e \<Rightarrow> Inl e
      | Inr items \<Rightarrow>
          (if py_not items then Inr (Break all_items)
           else
             (case extend all_items items of
                Inl e \<Rightarrow> Inl e
              | Inr all_items' \<Rightarrow>
                  (case dict_get data ''paging'' (JObj []) of
                     Inl e \<Rightarrow> Inl e
                   | Inr paging \<Rightarrow>
                       (case dict_get paging ''count'' (JInt 0) of
                          Inl e \<Rightarrow> Inl e
                        | Inr total_count \<Rightarrow>
                            (case int_ge (offset + limit) total_count of
                               Inl e \<Rightarrow> Inl e
                             | Inr b \<Rightarrow>
                                 (if b then Inr (Break all_items')
                                  else Inr (Next all_items'))))))))"

text \<open>The fetch of one page: \<^verbatim>\<open>self.get\<close>, \<^verbatim>\<open>raise_for_status\<close>, \<^verbatim>\<open>json\<close>.\<close>

definition fetch_page ::
  "server \<Rightarrow> string \<Rightarrow> bool \<Rightarrow> int \<Rightarrow> FMCClient \<Rightarrow> (error + json) \<times> FMCClient" where
  "fetch_page srv endpoint expanded offset s =
     get_json srv endpoint (page_params expanded offset) s"

text \<open>
  The loop may run for ever (a server that never sends an empty page and always declares more):
  not returning is the value \<open>None\<close>.
\<close>

partial_function (option) get_all_items_loop ::
  "server \<Rightarrow> string \<Rightarrow> bool \<Rightarrow> int \<Rightarrow> json list \<Rightarrow> FMCClient
   \<Rightarrow> ((error + json list) \<times> FMCClient) option" where
  "get_all_items_loop srv endpoint expanded offset all_items s =
     (case fetch_page srv endpoint expanded offset s of
        (Inl e, s') \<Rightarrow> Some (Inl e, s')
      | (Inr data, s') \<Rightarrow>
          (case page_round data offset all_items of
             Inl e \<Rightarrow> Some (Inl e, s')
           | Inr (Break all_items') \<Rightarrow> Some (Inr all_items', s')
           | Inr (Next all_items') \<Rightarrow>
               get_all_items_loop srv endpoint expanded (offset + limit) all_items' s'))"

definition get_all_items ::
  "server \<Rightarrow> string \<Rightarrow> bool \<Rightarrow> FMCClient \<Rightarrow> ((error + json list) \<times> FMCClient) option" where
  "get_all_items srv endpoint expanded s = get_all_items_loop srv endpoint expanded 0 [] s"

subsection \<open>Convenience reads\<close>

definition get_devices :: "server \<Rightarrow> FMCClient \<Rightarrow> ((error + json list) \<times> FMCClient) option" where
  "get_devices srv s =
     get_all_items srv
       (''/api/fmc_config/v1/domain/'' @ domain_uuid s @ ''/devices/devicerecords'') True s"

definition get_network_objects ::
  "server \<Rightarrow> FMCClient \<Rightarrow> ((error + json list) \<times> FMCClient) option" where
  "get_network_objects srv s =
     get_all_items srv
       (''/api/fmc_config/v1/domain/'' @ domain_uuid s @ ''/object/networks'') True s"

definition get_host_objects ::
  "server \<Rightarrow> FMCClient \<Rightarrow> ((error + json list) \<times> FMCClient) option" where
  "get_host_objects srv s =
     get_all_items srv
       (''/api/fmc_config/v1/domain/'' @ domain_uuid s @ ''/object/hosts'') True s"

definition deployabledevices_endpoint :: "FMCClient \<Rightarrow> string" where
  "deployabledevices_endpoint s =
     ''/api/fmc_config/v1/domain/'' @ domain_uuid s @ ''/deployment/deployabledevices''"

definition get_deployable_devices ::
  "server \<Rightarrow> FMCClient \<Rightarrow> ((error + json list) \<times> FMCClient) option" where
  "get_deployable_devices srv s =
     (case get_all_items srv (deployabledevices_endpoint s) True s of
        None \<Rightarrow> None
      | Some (Inl (HTTPStatusError r), s') \<Rightarrow>
          if status_code r = 403 then Some (Inr [], s') else Some (Inl (HTTPStatusError r), s')
      | Some (Inl e, s') \<Rightarrow> Some (Inl e, s')
      | Some (Inr all_items, s') \<Rightarrow> Some (Inr all_items, s'))"

section \<open>The token bucket (RateLimiter)\<close>

text \<open>
  The token count is a Python number: the float \<^verbatim>\<open>float(capacity)\<close> at first, later
  either a float or, when \<^verbatim>\<open>min\<close> returns its first argument, the int
  \<^verbatim>\<open>self.capacity\<close> itself. A float is given by the real number the double stands for.
  The result of an operation on floats is the rounded exact result; the rounding \<open>fl\<close> is a
  parameter of the model. Infinities and NaN are not modelled. An int that meets a float in an
  operation is converted first, which can raise. Comparisons of an int with a float are exact.
  Each call of \<^verbatim>\<open>time.monotonic()\<close> takes the next reading of a list the environment
  supplies; a loop that outlives the list has not returned (\<open>None\<close>).
\<close>

datatype number = PyInt int | PyFloat real

fun value_of :: "number \<Rightarrow> real" where
  "value_of (PyInt n) = real_of_int n"
| "value_of (PyFloat x) = x"

fun as_float :: "number \<Rightarrow> error + real" where
  "as_float (PyInt n) =
     (case float_of_int n of None \<Rightarrow> Inl OverflowError | Some d \<Rightarrow> Inr (real_of_int d))"
| "as_float (PyFloat x) = Inr x"

record RateLimiter =
  capacity :: int
  refill_rate :: real
  tokens :: number
  last_refill :: real


text \<open>
  \<^verbatim>\<open>_refill\<close>. \<^verbatim>\<open>min(self.capacity, x)\<close> is \<open>x\<close> when \<open>x < self.capacity\<close> and the
  int \<^verbatim>\<open>self.capacity\<close> otherwise.
\<close>

definition refill :: "(real \<Rightarrow> real) \<Rightarrow> real \<Rightarrow> RateLimiter \<Rightarrow> error + RateLimiter" where
  "refill fl now l =
     (let elapsed = fl (now - last_refill l) in
      case as_float (tokens l) of
        Inl e \<Rightarrow> Inl e
      | Inr t \<Rightarrow>
          (let x = fl (t + fl (elapsed * refill_rate l)) in
           Inr (l\<lparr>tokens := (if x < real_of_int (capacity l) then PyFloat x
                               else PyInt (capacity l)),
                  last_refill := now\<rparr>)))"

text \<open>\<^verbatim>\<open>(1 - self.tokens) / self.refill_rate\<close>\<close>

definition wait_time :: "(real \<Rightarrow> real) \<Rightarrow> RateLimiter \<Rightarrow> error + real" where
  "wait_time fl l =
     (case as_float (case tokens l of PyInt n \<Rightarrow> PyInt (1 - n) | PyFloat t \<Rightarrow> PyFloat (fl (1 - t))) of
        Inl e \<Rightarrow> Inl e
      | Inr d \<Rightarrow>
          if refill_rate l = 0 then Inl ZeroDivisionError else Inr (fl (d / refill_rate l)))"






text \<open>
  The wait of \<^verbatim>\<open>acquire\<close> as the specification words it: with a token available nothing
  is slept; with less than one token the caller sleeps for the computed time, the bucket is
  refilled at the next clock reading, and the wait goes on from there.
  \<open>sleeps_until fl l clock slept l'\<close>: from \<open>l\<close> the wait ends in \<open>l'\<close>, with the refills at
  the readings \<open>clock\<close> and the sleeps \<open>slept\<close>.
\<close>

inductive sleeps_until ::
  "(real \<Rightarrow> real) \<Rightarrow> RateLimiter \<Rightarrow> real list \<Rightarrow> real list \<Rightarrow> RateLimiter \<Rightarrow> bool"
  for fl where
  available: "1 \<le> value_of (tokens l) \<Longrightarrow> sleeps_until fl l [] [] l"
| suspended:
    "value_of (tokens l) < 1 \<Longrightarrow> wait_time fl l = Inr w \<Longrightarrow> refill fl now l = Inr l1 \<Longrightarrow>
     sleeps_until fl l1 clock slept l' \<Longrightarrow> sleeps_until fl l (now # clock) (w # slept) l'"


section \<open>Notions used in the properties\<close>

text \<open>
  The two authentication endpoints, and the calls of the refresh endpoint in a log.
\<close>

definition is_generatetoken :: "request \<Rightarrow> bool" where
  "is_generatetoken rq = (rq_path rq = ''/api/fmc_platform/v1/auth/generatetoken'')"

definition is_refreshtoken :: "request \<Rightarrow> bool" where
  "is_refreshtoken rq = (rq_path rq = ''/api/fmc_platform/v1/auth/refreshtoken'')"

fun is_refresh_call :: "event \<Rightarrow> bool" where
  "is_refresh_call (Http rq) = is_refreshtoken rq"
| "is_refresh_call _ = False"

definition refresh_calls :: "FMCClient \<Rightarrow> nat" where
  "refresh_calls s = length (filter is_refresh_call (log s))"

text \<open>
  The number of calls of \<^verbatim>\<open>_request\<close> so far: each one passes the rate limiter once.
\<close>

definition requests_made :: "FMCClient \<Rightarrow> nat" where
  "requests_made s = length (filter (\<lambda>e. e = RateLimiterAcquire) (log s))"

text \<open>
  \<open>frame s s'\<close>: from \<open>s\<close> to \<open>s'\<close> the HTTP client, the settings and the refresh ceiling
  are the same, the log has only grown, and a domain identifier that was set is unchanged.
\<close>

definition frame :: "FMCClient \<Rightarrow> FMCClient \<Rightarrow> bool" where
  "frame s s' =
     (priv_client s' = priv_client s \<and> settings s' = settings s \<and>
      priv_max_refreshes s' = priv_max_refreshes s \<and>
      (\<exists>evs. log s' = log s @ evs) \<and>
      (truthy (priv_domain_uuid s) \<longrightarrow> priv_domain_uuid s' = priv_domain_uuid s))"

text \<open>
  Whether an exception is the one \<^verbatim>\<open>get_deployable_devices\<close> swallows.
\<close>

fun is_403 :: "error \<Rightarrow> bool" where
  "is_403 (HTTPStatusError r) = (status_code r = 403)"
| "is_403 _ = False"

text \<open>
  The states a client created from settings \<open>st\<close> can be in: any run of the operations of the
  class, each against any server.
\<close>

inductive reachable :: "FMCSettings \<Rightarrow> FMCClient \<Rightarrow> bool" for st where
  r_init: "reachable st (init st)"
| r_connect: "reachable st s \<Longrightarrow> reachable st (snd (connect srv s))"
| r_close: "reachable st s \<Longrightarrow> reachable st (snd (close s))"
| r_authenticate: "reachable st s \<Longrightarrow> reachable st (snd (authenticate srv s))"
| r_refresh_auth_token: "reachable st s \<Longrightarrow> reachable st (snd (refresh_auth_token srv s))"
| r_request: "reachable st s \<Longrightarrow> reachable st (snd (request srv method path kw s))"
| r_get_all_items:
    "reachable st s \<Longrightarrow> get_all_items srv endpoint expanded s = Some (r, s') \<Longrightarrow> reachable st s'"

section \<open>Concrete servers and sessions\<close>

text \<open>
  The settings of the test suite, without and with a configured domain; a response without a
  body; a call without keyword arguments.
\<close>

definition test_settings :: FMCSettings where
  "test_settings =
     \<lparr>fmc_host = ''fmc.test.local'', fmc_username = ''testuser'', fmc_password = ''testpass'',
      fmc_verify_ssl = False, fmc_domain_uuid = None, fmc_timeout = 60, fmc_rate_limit = 120,
      fmc_max_connections = 10\<rparr>"

definition configured_settings :: FMCSettings where
  "configured_settings = test_settings\<lparr>fmc_domain_uuid := Some ''test-domain-uuid''\<rparr>"

definition reply :: "int \<Rightarrow> (string \<times> string) list \<Rightarrow> outcome" where
  "reply code hs = Response \<lparr>status_code = code, headers = hs, text_body = [], json_body = None\<rparr>"

definition json_reply :: "int \<Rightarrow> json \<Rightarrow> outcome" where
  "json_reply code j =
     Response \<lparr>status_code = code, headers = [], text_body = [], json_body = Some j\<rparr>"

definition no_kwargs :: kwargs where
  "no_kwargs = \<lparr>kw_headers = [], kw_params = []\<rparr>"

text \<open>
  The server of \<^verbatim>\<open>test_token_refresh_on_401\<close>: the token it first hands out has expired,
  the refreshed one is accepted.
\<close>

definition expiring_server :: server where
  "expiring_server tr rq =
     (if is_generatetoken rq then
        reply 204 [(''X-auth-access-token'', ''old-token''),
                   (''X-auth-refresh-token'', ''refresh-token''), (''DOMAIN_UUID'', ''dom-1'')]
      else if is_refreshtoken rq then
        reply 204 [(''X-auth-access-token'', ''new-token''),
                   (''X-auth-refresh-token'', ''new-refresh-token'')]
      else if map_of (rq_headers rq) ''X-auth-access-token'' = Some (Str ''new-token'')
        then reply 200 []
      else reply 401 [])"

definition opened_session :: FMCClient where
  "opened_session = (init test_settings)\<lparr>priv_client := True, log := [SessionOpened]\<rparr>"

definition refreshed_session :: FMCClient where
  "refreshed_session =
     snd (get expiring_server ''/api/fmc_platform/v1/info/serverversion'' no_kwargs
            (snd (connect expiring_server (init test_settings))))"

definition configured_session :: FMCClient where
  "configured_session = snd (connect expiring_server (init configured_settings))"

text \<open>
  A server that answers 204 without any header, and one that refuses with a given body.
\<close>

definition bare_204_server :: server where
  "bare_204_server tr rq = reply 204 []"

definition denying_server :: "string \<Rightarrow> server" where
  "denying_server body tr rq =
     Response \<lparr>status_code = 401, headers = [], text_body = body, json_body = None\<rparr>"

text \<open>
  The answer of \<^verbatim>\<open>mock_auth_response\<close> (without the domain header) and the session it
  opens.
\<close>

definition test_auth_reply :: outcome where
  "test_auth_reply =
     reply 204 [(''X-auth-access-token'', ''test-access-token''),
                (''X-auth-refresh-token'', ''test-refresh-token'')]"

definition test_session :: FMCClient where
  "test_session =
     \<lparr>settings = test_settings, priv_client = True,
      priv_access_token = Some ''test-access-token'',
      priv_refresh_token = Some ''test-refresh-token'', priv_domain_uuid = None,
      priv_refresh_count = 0, priv_max_refreshes = 3,
      log = [SessionOpened, Http (generatetoken_request (init test_settings))]\<rparr>"

text \<open>
  The listing of the test suite (\<^verbatim>\<open>mock_devices\<close>, items shortened) and the same
  without its paging envelope; a server that sends a given page for every read, and one that
  forbids every read; the first page request and the session after it.
\<close>

definition ftd_01 :: json where
  "ftd_01 = JObj [(''name'', JStr ''FTD-01''), (''id'', JStr ''device-1'')]"

definition ftd_02 :: json where
  "ftd_02 = JObj [(''name'', JStr ''FTD-02''), (''id'', JStr ''device-2'')]"

definition devices_page :: "(string \<times> json) list" where
  "devices_page =
     [(''items'', JList [ftd_01, ftd_02]),
      (''paging'', JObj [(''offset'', JInt 0), (''limit'', JInt 1000), (''count'', JInt 2),
                         (''pages'', JInt 1)])]"

definition bare_page :: "(string \<times> json) list" where
  "bare_page = [(''items'', JList [ftd_01, ftd_02])]"

definition listing_server :: "json \<Rightarrow> server" where
  "listing_server page tr rq =
     (if is_generatetoken rq then test_auth_reply else json_reply 200 page)"

definition forbidden :: response where
  "forbidden = \<lparr>status_code = 403, headers = [], text_body = [], json_body = None\<rparr>"

definition forbidding_server :: server where
  "forbidding_server tr rq = (if is_generatetoken rq then test_auth_reply else reply 403 [])"

definition devicerecords :: string where
  "devicerecords =
     ''/api/fmc_config/v1/domain/e276abec-e0f2-11e3-8169-6d9ed49b625f/devices/devicerecords''"

definition page_request :: "string \<Rightarrow> request" where
  "page_request endpoint =
     \<lparr>rq_method = ''GET'', rq_path = endpoint,
      rq_headers = [(''X-auth-access-token'', Str ''test-access-token'')],
      rq_params = [(''limit'', JInt 1000), (''offset'', JInt 0), (''expanded'', JStr ''true'')]\<rparr>"

definition after_page :: "string \<Rightarrow> FMCClient" where
  "after_page endpoint =
     test_session\<lparr>log := log test_session @ [RateLimiterAcquire, Http (page_request endpoint)]\<rparr>"

text \<open>
  A server that declares 5000 items but has two: the page at offset 0 holds them, every later
  page is empty. The second page request and the session after it.
\<close>

definition overcounted_page :: "json list \<Rightarrow> (string \<times> json) list" where
  "overcounted_page items = [(''items'', JList items), (''paging'', JObj [(''count'', JInt 5000)])]"

definition overcounting_server :: server where
  "overcounting_server tr rq =
     (if is_generatetoken rq then test_auth_reply
      else if map_of (rq_params rq) ''offset'' = Some (JInt 0)
        then json_reply 200 (JObj (overcounted_page [ftd_01, ftd_02]))
      else json_reply 200 (JObj (overcounted_page [])))"

definition second_page_request :: request where
  "second_page_request =
     (page_request devicerecords)
       \<lparr>rq_params := [(''limit'', JInt 1000), (''offset'', JInt 1000), (''expanded'', JStr ''true'')]\<rparr>"

definition after_second_page :: FMCClient where
  "after_second_page =
     (after_page devicerecords)
       \<lparr>log := log (after_page devicerecords) @ [RateLimiterAcquire, Http second_page_request]\<rparr>"

text \<open>
  A read of the server version, the session after its first request, and a server that
  answers every read with 429 and the given headers.
\<close>

definition serverversion :: string where
  "serverversion = ''/api/fmc_platform/v1/info/serverversion''"

definition version_request :: request where
  "version_request =
     \<lparr>rq_method = ''GET'', rq_path = serverversion,
      rq_headers = [(''X-auth-access-token'', Str ''test-access-token'')], rq_params = []\<rparr>"

definition asked_once :: FMCClient where
  "asked_once = test_session\<lparr>log := log test_session @ [RateLimiterAcquire, Http version_request]\<rparr>"

definition too_many :: "(string \<times> string) list \<Rightarrow> response" where
  "too_many hs = \<lparr>status_code = 429, headers = hs, text_body = [], json_body = None\<rparr>"

definition throttling_server :: "(string \<times> string) list \<Rightarrow> server" where
  "throttling_server hs tr rq =
     (if is_generatetoken rq then test_auth_reply else Response (too_many hs))"

text \<open>
  A server for which every token is stale but refreshing works, and one that lets the first
  authentication through and then refuses everything.
\<close>

definition unauthorized :: response where
  "unauthorized = \<lparr>status_code = 401, headers = [], text_body = [], json_body = None\<rparr>"

definition stale_server :: server where
  "stale_server tr rq =
     (if is_generatetoken rq then test_auth_reply
      else if is_refreshtoken rq then
        reply 204 [(''X-auth-access-token'', ''new-token''),
                   (''X-auth-refresh-token'', ''new-refresh-token'')]
      else Response unauthorized)"

definition revoked_server :: server where
  "revoked_server tr rq =
     (if is_generatetoken rq then (if tr = [SessionOpened] then test_auth_reply else reply 401 [])
      else if is_refreshtoken rq then reply 500 []
      else Response unauthorized)"

definition token_refreshed :: FMCClient where
  "token_refreshed =
     asked_once\<lparr>priv_access_token := Some ''new-token'',
                priv_refresh_token := Some ''new-refresh-token'', priv_refresh_count := 1,
                log := log asked_once @ [Http (refreshtoken_request test_session)]\<rparr>"

definition version_retry :: request where
  "version_retry = version_request\<lparr>rq_headers := [(''X-auth-access-token'', Str ''new-token'')]\<rparr>"

text \<open>
  The session after three refreshed requests against the server of stale tokens.
\<close>

definition ceiling_session :: FMCClient where
  "ceiling_session =
     snd (get stale_server serverversion no_kwargs
       (snd (get stale_server serverversion no_kwargs
         (snd (get stale_server serverversion no_kwargs test_session)))))"

text \<open>
  A server whose third refresh answer lacks the refresh-token header, and the session after
  three requests against it, each answered 401 and followed by a refresh.
\<close>

definition forgetful_server :: server where
  "forgetful_server tr rq =
     (if is_generatetoken rq then
        reply 204 [(''X-auth-access-token'', ''A0''), (''X-auth-refresh-token'', ''R0'')]
      else if is_refreshtoken rq then
        (if map_of (rq_headers rq) ''X-auth-refresh-token'' = Some (Str ''R0'') then
           reply 204 [(''X-auth-access-token'', ''A1''), (''X-auth-refresh-token'', ''R1'')]
         else if map_of (rq_headers rq) ''X-auth-refresh-token'' = Some (Str ''R1'') then
           reply 204 [(''X-auth-access-token'', ''A2''), (''X-auth-refresh-token'', ''R2'')]
         else reply 204 [(''X-auth-access-token'', ''A3'')])
      else Response unauthorized)"

definition worn_session :: FMCClient where
  "worn_session =
     snd (get forgetful_server serverversion no_kwargs
       (snd (get forgetful_server serverversion no_kwargs
         (snd (get forgetful_server serverversion no_kwargs
           (snd (connect forgetful_server (init test_settings))))))))"

definition version_request_A3 :: request where
  "version_request_A3 = version_request\<lparr>rq_headers := [(''X-auth-access-token'', Str ''A3'')]\<rparr>"


section \<open>Verified properties\<close>

subsection \<open>Frame lemmas\<close>

lemma frame_refl: "frame s s"
  by (simp add: frame_def)

lemma frame_trans: "frame s s' \<Longrightarrow> frame s' s'' \<Longrightarrow> frame s s''"
  by (auto simp: frame_def)

lemma frame_exchange: "exchange srv rq s = (out, s') \<Longrightarrow> frame s s'"
  by (auto simp: exchange_def frame_def)

lemma frame_authenticate: "authenticate srv s = (r, s') \<Longrightarrow> frame s s'"
  by (auto simp: authenticate_def exchange_def discover_domain_def frame_def
      split: if_splits outcome.splits)

lemma frame_authenticate_return_True: "authenticate_return_True srv s = (r, s') \<Longrightarrow> frame s s'"
  by (auto simp: authenticate_return_True_def split: prod.splits sum.splits dest: frame_authenticate)

lemma frame_refresh_auth_token: "refresh_auth_token srv s = (r, s') \<Longrightarrow> frame s s'"
  apply (auto simp: refresh_auth_token_def frame_refl split: if_splits prod.splits outcome.splits sum.splits
      dest!: frame_authenticate_return_True frame_authenticate frame_exchange)
  apply (auto simp: frame_def)
  done


lemma frame_send: "send srv m p hs kw s = (r, s') \<Longrightarrow> frame s s'"
  by (auto simp: send_def split: prod.splits outcome.splits dest: frame_exchange)

lemma send_log: "send srv m p hs kw s = (r, s') \<Longrightarrow> log s' = log s @ [Http (api_request m p hs kw)]"
  by (auto simp: send_def exchange_def split: outcome.splits)

lemma frame_handle_401: "handle_401 srv m p kw hs r s = (x, s') \<Longrightarrow> frame s s'"
  by (auto simp: handle_401_def Let_def frame_refl split: if_splits prod.splits sum.splits
      dest!: frame_refresh_auth_token frame_send intro: frame_trans)

lemma frame_handle_429: "handle_429 srv m p kw hs r s = (x, s') \<Longrightarrow> frame s s'"
  apply (auto simp: handle_429_def frame_refl split: if_splits option.splits sum.splits
      dest!: frame_send)
  apply (auto simp: frame_def)
  done

lemma frame_request: "request srv m p kw s = (x, s') \<Longrightarrow> frame s s'"
proof (cases "priv_client s")
  case False
  assume "request srv m p kw s = (x, s')"
  with False show ?thesis by (simp add: request_def frame_refl)
next
  case True
  assume req: "request srv m p kw s = (x, s')"
  let ?s0 = "s\<lparr>log := log s @ [RateLimiterAcquire]\<rparr>"
  have f0: "frame s ?s0" by (simp add: frame_def)
  from req True show ?thesis
    by (auto simp: request_def Let_def split: prod.splits sum.splits
        dest!: frame_send frame_handle_401 frame_handle_429 intro: frame_trans [OF f0] frame_trans)
qed

lemma request_log_grows:
  assumes "request srv m p kw s = (x, s')" and "priv_client s"
  shows "length (log s) < length (log s')"
proof -
  let ?s0 = "s\<lparr>log := log s @ [RateLimiterAcquire]\<rparr>"
  have len: "\<And>a b. frame a b \<Longrightarrow> length (log a) \<le> length (log b)"
    by (auto simp: frame_def)
  have "\<exists>s1. frame ?s0 s1 \<and> frame s1 s'"
    using assms
    by (auto simp: request_def Let_def split: prod.splits sum.splits
        dest!: frame_send frame_handle_401 frame_handle_429 intro: frame_trans frame_refl)
  then have "frame ?s0 s'" using frame_trans by blast
  then have "length (log ?s0) \<le> length (log s')" by (rule len)
  then show ?thesis by simp
qed

lemma request_not_initialized: "\<not> priv_client s \<Longrightarrow> request srv m p kw s = (Inl NotInitialized, s)"
  by (simp add: request_def)

lemma fetch_page_frame: "fetch_page srv ep ex off s = (x, s') \<Longrightarrow> frame s s'"
  by (auto simp: fetch_page_def get_json_def get_def split: prod.splits sum.splits
      dest: frame_request)

lemma fetch_page_Inr:
  assumes "fetch_page srv ep ex off s = (Inr data, s')"
  shows "priv_client s \<and> priv_client s' \<and> length (log s) < length (log s')"
proof -
  have pc: "priv_client s"
    using assms
    by (cases "priv_client s")
       (auto simp: fetch_page_def get_json_def get_def request_not_initialized)
  from assms obtain r where "request srv ''GET'' ep (page_params ex off) s = (r, s')"
    by (auto simp: fetch_page_def get_json_def get_def split: prod.splits sum.splits)
  with pc show ?thesis
    using request_log_grows frame_request by (fastforce simp: frame_def)
qed

lemma loop_frame_aux:
  assumes "get_all_items_loop srv ep ex off acc s = Some y"
  shows "frame s (snd y)"
proof (rule get_all_items_loop.raw_induct
    [where P = "\<lambda>srv ep ex off acc s y. frame s (snd y)", OF _ assms])
  fix loop srv ep ex off acc s y
  assume IH: "\<And>srv ep ex off acc s y.
      loop srv ep ex off acc s = Some y \<Longrightarrow> frame s (snd y)"
    and body: "(case fetch_page srv ep ex off s of
        (Inl e, s') \<Rightarrow> Some (Inl e, s')
      | (Inr data, s') \<Rightarrow>
          (case page_round data off acc of
             Inl e \<Rightarrow> Some (Inl e, s')
           | Inr (Break all_items') \<Rightarrow> Some (Inr all_items', s')
           | Inr (Next all_items') \<Rightarrow> loop srv ep ex (off + limit) all_items' s')) = Some y"
  obtain x s1 where fp: "fetch_page srv ep ex off s = (x, s1)"
    by (cases "fetch_page srv ep ex off s")
  have f1: "frame s s1" using fp by (rule fetch_page_frame)
  show "frame s (snd y)"
    using body fp f1
    by (auto split: sum.splits round.splits dest!: IH intro: frame_trans)
qed

lemma loop_frame: "get_all_items_loop srv ep ex off acc s = Some (r, s') \<Longrightarrow> frame s s'"
  using loop_frame_aux by fastforce

lemma loop_log_grows_aux:
  assumes "get_all_items_loop srv ep ex off acc s = Some y"
  shows "priv_client s \<longrightarrow> length (log s) < length (log (snd y))"
proof (rule get_all_items_loop.raw_induct
    [where P = "\<lambda>srv ep ex off acc s y. priv_client s \<longrightarrow> length (log s) < length (log (snd y))",
     OF _ assms])
  fix loop srv ep ex off acc s y
  assume IH: "\<And>srv ep ex off acc s y.
      loop srv ep ex off acc s = Some y \<Longrightarrow>
      priv_client s \<longrightarrow> length (log s) < length (log (snd y))"
    and body: "(case fetch_page srv ep ex off s of
        (Inl e, s') \<Rightarrow> Some (Inl e, s')
      | (Inr data, s') \<Rightarrow>
          (case page_round data off acc of
             Inl e \<Rightarrow> Some (Inl e, s')
           | Inr (Break all_items') \<Rightarrow> Some (Inr all_items', s')
           | Inr (Next all_items') \<Rightarrow> loop srv ep ex (off + limit) all_items' s')) = Some y"
  show "priv_client s \<longrightarrow> length (log s) < length (log (snd y))"
  proof
    assume pc: "priv_client s"
    obtain x s1 where fp: "fetch_page srv ep ex off s = (x, s1)"
      by (cases "fetch_page srv ep ex off s")
    have g: "length (log s) < length (log s1)"
      using fp pc
      by (auto simp: fetch_page_def get_json_def get_def split: prod.splits sum.splits
          dest: request_log_grows)
    have pc1: "priv_client s1" using fetch_page_frame[OF fp] pc by (simp add: frame_def)
    show "length (log s) < length (log (snd y))"
      using body fp g pc1
      by (auto split: sum.splits round.splits dest!: IH)
  qed
qed

lemma loop_log_grows:
  "get_all_items_loop srv ep ex off acc s = Some (r, s') \<Longrightarrow> priv_client s \<Longrightarrow>
   length (log s) < length (log s')"
  using loop_log_grows_aux by fastforce

subsection \<open>Counting requests; one round of the pagination loop\<close>

lemma rm_exchange: "exchange srv rq s = (out, s') \<Longrightarrow> requests_made s' = requests_made s"
  by (auto simp: exchange_def requests_made_def)

lemma rm_authenticate: "authenticate srv s = (r, s') \<Longrightarrow> requests_made s' = requests_made s"
  by (auto simp: authenticate_def exchange_def discover_domain_def requests_made_def
      split: if_splits outcome.splits)

lemma rm_authenticate_return_True:
  "authenticate_return_True srv s = (r, s') \<Longrightarrow> requests_made s' = requests_made s"
  by (auto simp: authenticate_return_True_def split: prod.splits sum.splits dest: rm_authenticate)

lemma rm_refresh_auth_token:
  "refresh_auth_token srv s = (r, s') \<Longrightarrow> requests_made s' = requests_made s"
  apply (auto simp: refresh_auth_token_def split: if_splits prod.splits outcome.splits sum.splits
      dest!: rm_authenticate_return_True rm_authenticate rm_exchange)
  apply (auto simp: requests_made_def)
  done

lemma rm_send: "send srv m p hs kw s = (r, s') \<Longrightarrow> requests_made s' = requests_made s"
  by (auto simp: send_def split: prod.splits outcome.splits dest: rm_exchange)

lemma rm_handle_401:
  "handle_401 srv m p kw hs r s = (x, s') \<Longrightarrow> requests_made s' = requests_made s"
  by (auto simp: handle_401_def Let_def split: if_splits prod.splits sum.splits
      dest!: rm_refresh_auth_token rm_send)

lemma rm_handle_429:
  "handle_429 srv m p kw hs r s = (x, s') \<Longrightarrow> requests_made s' = requests_made s"
  apply (auto simp: handle_429_def split: if_splits option.splits sum.splits dest!: rm_send)
  apply (auto simp: requests_made_def)
  done

lemma rm_request:
  assumes "request srv m p kw s = (x, s')" and "priv_client s"
  shows "requests_made s' = requests_made s + 1"
proof -
  let ?s0 = "s\<lparr>log := log s @ [RateLimiterAcquire]\<rparr>"
  have "requests_made ?s0 = requests_made s + 1" by (simp add: requests_made_def)
  moreover have "requests_made s' = requests_made ?s0"
    using assms
    by (auto simp: request_def Let_def split: prod.splits sum.splits
        dest!: rm_send rm_handle_401 rm_handle_429)
  ultimately show ?thesis by simp
qed

lemma rm_fetch_page:
  assumes "fetch_page srv ep ex off s = (Inr data, s')"
  shows "requests_made s' = requests_made s + 1"
proof -
  from assms obtain r where "request srv ''GET'' ep (page_params ex off) s = (r, s')"
    by (auto simp: fetch_page_def get_json_def get_def split: prod.splits sum.splits)
  then show ?thesis using rm_request fetch_page_Inr[OF assms] by blast
qed

lemma loop_step:
  "fetch_page srv ep ex off s = (Inr data, s') \<Longrightarrow>
   get_all_items_loop srv ep ex off acc s =
     (case page_round data off acc of
        Inl e \<Rightarrow> Some (Inl e, s')
      | Inr (Break a) \<Rightarrow> Some (Inr a, s')
      | Inr (Next a) \<Rightarrow> get_all_items_loop srv ep ex (off + limit) a s')"
  by (subst get_all_items_loop.simps) simp

lemma page_round_typed:
  assumes "dict_get (JObj d) ''items'' (JList []) = Inr (JList items)"
      and "dict_get (JObj d) ''paging'' (JObj []) = Inr (JObj p)"
      and "dict_get (JObj p) ''count'' (JInt 0) = Inr (JInt total_count)"
  shows "page_round (JObj d) off acc =
     (if items = [] then Inr (Break acc)
      else if off + limit \<ge> total_count then Inr (Break (acc @ items))
      else Inr (Next (acc @ items)))"
  using assms unfolding page_round_def by (simp del: dict_get.simps)

lemma test_session_connect:
  "connect (listing_server page) (init test_settings) = (Inr (), test_session)"
  "connect forbidding_server (init test_settings) = (Inr (), test_session)"
  by (simp_all add: connect_def init_def authenticate_def exchange_def listing_server_def
      forbidding_server_def test_auth_reply_def
      is_generatetoken_def generatetoken_request_def reply_def headers_get_def
      discover_domain_def test_settings_def test_session_def)

lemma listing_fetch:
  "fetch_page (listing_server page) devicerecords True 0 test_session =
     (Inr page, after_page devicerecords)"
  by (simp add: devicerecords_def fetch_page_def get_json_def get_def request_def Let_def send_def exchange_def
      api_request_def page_params_def limit_def listing_server_def is_generatetoken_def
      json_reply_def handle_401_def handle_429_def raise_for_status_def response_json_def
      test_session_def after_page_def page_request_def generatetoken_request_def)

lemmas scenario_defs =
  connect_def init_def authenticate_def exchange_def expiring_server_def is_generatetoken_def
  is_refreshtoken_def generatetoken_request_def reply_def headers_get_def discover_domain_def
  test_settings_def send_def api_request_def handle_401_def handle_429_def
  refresh_auth_token_def refreshtoken_request_def no_kwargs_def get_def request_def Let_def

lemma refreshed_session_fields:
  "priv_client refreshed_session"
  "priv_refresh_count refreshed_session = 1"
  "priv_domain_uuid refreshed_session = Some ''dom-1''"
  "priv_access_token refreshed_session = Some ''new-token''"
  "priv_refresh_token refreshed_session = Some ''new-refresh-token''"
  by (simp_all add: refreshed_session_def scenario_defs)

subsection \<open>Closing the session\<close>

text \<open>
  C2 (as amended). \<^verbatim>\<open>close()\<close> never raises and leaves the client disconnected; when a
  session was open, the access token and the refresh token are \<^verbatim>\<open>None\<close> afterwards. The
  refresh counter and the domain identifier are not touched. A second \<^verbatim>\<open>close()\<close> changes
  nothing and raises nothing.
\<close>

theorem close_clears_tokens_only:
  "fst (close s) = Inr () \<and>
   \<not> priv_client (snd (close s)) \<and>
   (priv_client s \<longrightarrow>
      priv_access_token (snd (close s)) = None \<and> priv_refresh_token (snd (close s)) = None) \<and>
   priv_refresh_count (snd (close s)) = priv_refresh_count s \<and>
   priv_domain_uuid (snd (close s)) = priv_domain_uuid s \<and>
   close (snd (close s)) = (Inr (), snd (close s))"
  by (simp add: close_def)

theorem close_clears_tokens_only_witness:
  "priv_client refreshed_session \<and>
   priv_access_token (snd (close refreshed_session)) = None \<and>
   priv_refresh_token (snd (close refreshed_session)) = None \<and>
   close (snd (close refreshed_session)) = (Inr (), snd (close refreshed_session))"
  using close_clears_tokens_only [of refreshed_session] refreshed_session_fields(1) by simp

text \<open>
  C2 as stated fails: after connecting, one refreshed request and \<^verbatim>\<open>close()\<close>, the counter
  is still 1 and the discovered domain is still held, where a new client has 0 and \<^verbatim>\<open>None\<close>.
\<close>

theorem close_keeps_counter_and_domain:
  "priv_refresh_count (snd (close refreshed_session)) = 1 \<and>
   priv_refresh_count (init test_settings) = 0 \<and>
   priv_domain_uuid (snd (close refreshed_session)) = Some ''dom-1'' \<and>
   priv_domain_uuid (init test_settings) = None"
  by (simp add: close_def refreshed_session_fields) (simp add: init_def test_settings_def)

subsection \<open>Authentication\<close>

text \<open>
  C3 (as amended). When the token-generation request is answered, \<^verbatim>\<open>_authenticate\<close>
  succeeds if and only if the status is 204; any other status raises the authentication error
  with that status code. On success the two tokens are whatever the headers hold, \<^verbatim>\<open>None\<close>
  for a header that is absent.
\<close>

theorem authenticate_succeeds_iff_204:
  assumes "priv_client s" and "srv (log s) (generatetoken_request s) = Response r"
  shows "(fst (authenticate srv s) = Inr ()) = (status_code r = 204) \<and>
         (status_code r \<noteq> 204 \<longrightarrow>
            fst (authenticate srv s) = Inl (AuthenticationFailed (status_code r))) \<and>
         (status_code r = 204 \<longrightarrow>
            priv_access_token (snd (authenticate srv s)) = headers_get r ''X-auth-access-token'' \<and>
            priv_refresh_token (snd (authenticate srv s)) = headers_get r ''X-auth-refresh-token'')"
  using assms by (simp add: authenticate_def exchange_def discover_domain_def)

theorem authenticate_succeeds_iff_204_witness:
  "priv_client opened_session \<and>
   expiring_server (log opened_session) (generatetoken_request opened_session) =
     reply 204 [(''X-auth-access-token'', ''old-token''),
                (''X-auth-refresh-token'', ''refresh-token''), (''DOMAIN_UUID'', ''dom-1'')] \<and>
   fst (authenticate expiring_server opened_session) = Inr () \<and>
   priv_access_token (snd (authenticate expiring_server opened_session)) = Some ''old-token''"
proof -
  have a: "priv_client opened_session" by (simp add: opened_session_def)
  have b: "expiring_server (log opened_session) (generatetoken_request opened_session) =
     Response \<lparr>status_code = 204, headers = [(''X-auth-access-token'', ''old-token''),
                (''X-auth-refresh-token'', ''refresh-token''), (''DOMAIN_UUID'', ''dom-1'')],
                text_body = [], json_body = None\<rparr>"
    by (simp add: expiring_server_def is_generatetoken_def generatetoken_request_def reply_def)
  show ?thesis
    using authenticate_succeeds_iff_204 [where s = opened_session and srv = expiring_server, OF a b]
      a b by (simp add: headers_get_def reply_def)
qed

text \<open>
  C3 as stated fails twice: a 204 without the two token headers is a success, leaving both
  tokens \<^verbatim>\<open>None\<close>; and the error of a refused authentication is the same whatever the
  response body, so it does not carry the body.
\<close>

theorem authenticate_ignores_missing_headers_and_body:
  "fst (connect bare_204_server (init test_settings)) = Inr () \<and>
   priv_access_token (snd (connect bare_204_server (init test_settings))) = None \<and>
   priv_refresh_token (snd (connect bare_204_server (init test_settings))) = None \<and>
   fst (connect (denying_server ''locked out'') (init test_settings)) =
     Inl (AuthenticationFailed 401) \<and>
   fst (connect (denying_server ''bad password'') (init test_settings)) =
     Inl (AuthenticationFailed 401)"
  by (simp add: scenario_defs bare_204_server_def denying_server_def)

subsection \<open>Pagination\<close>

text \<open>
  C5. Take a round of \<^verbatim>\<open>get_all_items\<close> whose page was fetched and has a list of items
  and a declared count (the defaults of the source standing in for an absent key). The function
  returns with the state right after this fetch exactly when the page is empty, whatever the
  count says, or \<open>offset + limit\<close> has reached the declared count; it then returns the
  accumulator with the page's items appended. Otherwise it goes on with the next offset. In
  particular, a first page holding both items of a declared total of 2 gives exactly these 2
  items after exactly one page request.
\<close>

theorem get_all_items_stops_exactly_when:
  assumes fetch: "fetch_page srv endpoint expanded offset s = (Inr (JObj d), s')"
      and items: "dict_get (JObj d) ''items'' (JList []) = Inr (JList items)"
      and paging: "dict_get (JObj d) ''paging'' (JObj []) = Inr (JObj p)"
      and count: "dict_get (JObj p) ''count'' (JInt 0) = Inr (JInt total_count)"
  shows "((\<exists>r. get_all_items_loop srv endpoint expanded offset all_items s = Some (r, s')) \<longleftrightarrow>
            (items = [] \<or> offset + limit \<ge> total_count)) \<and>
         (items = [] \<or> offset + limit \<ge> total_count \<longrightarrow>
            get_all_items_loop srv endpoint expanded offset all_items s =
              Some (Inr (all_items @ items), s')) \<and>
         (\<not> (items = [] \<or> offset + limit \<ge> total_count) \<longrightarrow>
            get_all_items_loop srv endpoint expanded offset all_items s =
              get_all_items_loop srv endpoint expanded (offset + limit) (all_items @ items) s') \<and>
         (offset = 0 \<and> all_items = [] \<and> total_count = 2 \<and> length items = 2 \<longrightarrow>
            get_all_items srv endpoint expanded s = Some (Inr items, s') \<and>
            requests_made s' = requests_made s + 1)"
proof -
  note pr = page_round_typed [OF items paging count, of offset all_items]
  note step = loop_step [OF fetch, of all_items]
  have stop: "get_all_items_loop srv endpoint expanded offset all_items s =
              Some (Inr (all_items @ items), s')"
    if "items = [] \<or> offset + limit \<ge> total_count"
    using that step pr by auto
  have go: "get_all_items_loop srv endpoint expanded offset all_items s =
              get_all_items_loop srv endpoint expanded (offset + limit) (all_items @ items) s'"
    if "\<not> (items = [] \<or> offset + limit \<ge> total_count)"
    using that step pr by auto
  have later: "get_all_items_loop srv endpoint expanded offset all_items s \<noteq> Some (r, s')"
    if "\<not> (items = [] \<or> offset + limit \<ge> total_count)" for r
  proof
    assume "get_all_items_loop srv endpoint expanded offset all_items s = Some (r, s')"
    then have "get_all_items_loop srv endpoint expanded (offset + limit) (all_items @ items) s'
        = Some (r, s')"
      using go [OF that] by simp
    then have "length (log s') < length (log s')"
      using loop_log_grows fetch_page_Inr [OF fetch] by blast
    then show False by simp
  qed
  have one: "get_all_items srv endpoint expanded s = Some (Inr items, s') \<and>
            requests_made s' = requests_made s + 1"
    if "offset = 0 \<and> all_items = [] \<and> total_count = 2 \<and> length items = 2"
    using that stop rm_fetch_page [OF fetch] by (simp add: get_all_items_def limit_def)
  show ?thesis using stop go later one by blast
qed

lemma overcounting_fetch:
  "fetch_page overcounting_server devicerecords True 0 test_session =
     (Inr (JObj (overcounted_page [ftd_01, ftd_02])), after_page devicerecords)"
  "fetch_page overcounting_server devicerecords True (0 + limit) (after_page devicerecords) =
     (Inr (JObj (overcounted_page [])), after_second_page)"
  by (simp_all add: devicerecords_def fetch_page_def get_json_def get_def request_def Let_def send_def exchange_def
      api_request_def page_params_def limit_def overcounting_server_def is_generatetoken_def
      json_reply_def handle_401_def handle_429_def raise_for_status_def response_json_def
      test_session_def after_page_def page_request_def generatetoken_request_def
      second_page_request_def after_second_page_def)

lemma overcounted:
  "dict_get (JObj (overcounted_page items)) ''items'' (JList []) = Inr (JList items)"
  "dict_get (JObj (overcounted_page items)) ''paging'' (JObj []) = Inr (JObj [(''count'', JInt 5000)])"
  "dict_get (JObj [(''count'', JInt 5000)]) ''count'' (JInt 0) = Inr (JInt 5000)"
  by (simp_all add: overcounted_page_def)

theorem get_all_items_stops_exactly_when_witness:
  "fetch_page (listing_server (JObj devices_page)) devicerecords True 0 test_session =
     (Inr (JObj devices_page), after_page devicerecords) \<and>
   dict_get (JObj devices_page) ''items'' (JList []) = Inr (JList [ftd_01, ftd_02]) \<and>
   get_all_items (listing_server (JObj devices_page)) devicerecords True test_session =
     Some (Inr [ftd_01, ftd_02], after_page devicerecords) \<and>
   requests_made (after_page devicerecords) = requests_made test_session + 1 \<and>
   fetch_page overcounting_server devicerecords True (0 + limit) (after_page devicerecords) =
     (Inr (JObj (overcounted_page [])), after_second_page) \<and>
   get_all_items overcounting_server devicerecords True test_session =
     Some (Inr [ftd_01, ftd_02], after_second_page)"
proof -
  have i: "dict_get (JObj devices_page) ''items'' (JList []) = Inr (JList [ftd_01, ftd_02])"
    by (simp add: devices_page_def)
  have p: "dict_get (JObj devices_page) ''paging'' (JObj []) =
      Inr (JObj [(''offset'', JInt 0), (''limit'', JInt 1000), (''count'', JInt 2),
                 (''pages'', JInt 1)])"
    by (simp add: devices_page_def)
  have c: "dict_get (JObj [(''offset'', JInt 0), (''limit'', JInt 1000), (''count'', JInt 2),
                 (''pages'', JInt 1)]) ''count'' (JInt 0) = Inr (JInt 2)"
    by simp
  have one: "get_all_items (listing_server (JObj devices_page)) devicerecords True test_session =
     Some (Inr [ftd_01, ftd_02], after_page devicerecords) \<and>
   requests_made (after_page devicerecords) = requests_made test_session + 1"
    using get_all_items_stops_exactly_when [OF listing_fetch i p c, where all_items = "[]"]
    by simp
  note T1 = get_all_items_stops_exactly_when
    [OF overcounting_fetch(1) overcounted, where all_items = "[]"]
  note T2 = get_all_items_stops_exactly_when
    [OF overcounting_fetch(2) overcounted, where all_items = "[ftd_01, ftd_02]"]
  have more: "\<not> ([ftd_01, ftd_02] = [] \<or> 0 + limit \<ge> (5000::int))" by (simp add: limit_def)
  have a: "get_all_items_loop overcounting_server devicerecords True 0 [] test_session =
      get_all_items_loop overcounting_server devicerecords True (0 + limit) ([] @ [ftd_01, ftd_02])
        (after_page devicerecords)"
    using T1 [THEN conjunct2, THEN conjunct2, THEN conjunct1] more by (rule mp)
  have b: "get_all_items_loop overcounting_server devicerecords True (0 + limit) [ftd_01, ftd_02]
        (after_page devicerecords) = Some (Inr ([ftd_01, ftd_02] @ []), after_second_page)"
    using T2 [THEN conjunct2, THEN conjunct1] by simp
  have two: "get_all_items overcounting_server devicerecords True test_session =
     Some (Inr [ftd_01, ftd_02], after_second_page)"
    using a b by (simp add: get_all_items_def)
  show ?thesis using listing_fetch i one overcounting_fetch(2) two by simp
qed

text \<open>
  C10. When the first page has a non-empty list of items and its body has no paging envelope,
  or an envelope without a count, the count is taken to be 0, the check
  \<open>offset + limit \<ge> 0\<close> holds at once, and \<^verbatim>\<open>get_all_items\<close> returns the items of this
  page alone after that single page request.
\<close>

theorem get_all_items_without_count:
  assumes fetch: "fetch_page srv endpoint expanded 0 s = (Inr (JObj d), s')"
      and items: "map_of d ''items'' = Some (JList items)" and nonempty: "items \<noteq> []"
      and envelope: "map_of d ''paging'' = None \<or>
                     (\<exists>p. map_of d ''paging'' = Some (JObj p) \<and> map_of p ''count'' = None)"
  shows "get_all_items srv endpoint expanded s = Some (Inr items, s') \<and>
         requests_made s' = requests_made s + 1 \<and>
         (\<exists>p. dict_get (JObj d) ''paging'' (JObj []) = Inr (JObj p) \<and>
              dict_get (JObj p) ''count'' (JInt 0) = Inr (JInt 0))"
proof -
  from envelope obtain p where p: "dict_get (JObj d) ''paging'' (JObj []) = Inr (JObj p)"
    and c: "dict_get (JObj p) ''count'' (JInt 0) = Inr (JInt 0)"
    by auto
  have i: "dict_get (JObj d) ''items'' (JList []) = Inr (JList items)" using items by simp
  have "page_round (JObj d) 0 [] = Inr (Break items)"
    using page_round_typed [OF i p c, of 0 "[]"] nonempty by (simp add: limit_def)
  then have "get_all_items srv endpoint expanded s = Some (Inr items, s')"
    using loop_step [OF fetch, of "[]"] by (simp add: get_all_items_def)
  then show ?thesis using rm_fetch_page [OF fetch] p c by blast
qed

theorem get_all_items_without_count_witness:
  "fetch_page (listing_server (JObj bare_page)) devicerecords True 0 test_session =
     (Inr (JObj bare_page), after_page devicerecords) \<and>
   map_of bare_page ''paging'' = None \<and>
   get_all_items (listing_server (JObj bare_page)) devicerecords True test_session =
     Some (Inr [ftd_01, ftd_02], after_page devicerecords)"
proof -
  have i: "map_of bare_page ''items'' = Some (JList [ftd_01, ftd_02])"
    by (simp add: bare_page_def)
  have n: "[ftd_01, ftd_02] \<noteq> []" by simp
  have e: "map_of bare_page ''paging'' = None \<or>
      (\<exists>p. map_of bare_page ''paging'' = Some (JObj p) \<and> map_of p ''count'' = None)"
    by (simp add: bare_page_def)
  show ?thesis
    using get_all_items_without_count [OF listing_fetch i n e] listing_fetch
    by (simp add: bare_page_def)
qed

subsection \<open>The deployable-devices read\<close>

lemma first_page_refused:
  assumes "get srv ep (page_params ex 0) s = (Inr r, s')"
      and "\<not> (200 \<le> status_code r \<and> status_code r \<le> 299)"
  shows "get_all_items srv ep ex s = Some (Inl (HTTPStatusError r), s')"
  using assms
  by (subst get_all_items_def, subst get_all_items_loop.simps)
     (auto simp: fetch_page_def get_json_def raise_for_status_def)

text \<open>
  C8. An HTTP 403 raised while fetching makes \<^verbatim>\<open>get_deployable_devices\<close> return the empty
  list; any other exception of the fetch, and so any other HTTP error status, goes to the caller.
  The other reads do not do this: a 403 on their first page, or on \<^verbatim>\<open>get_json\<close>, is
  raised as the HTTP status error.
\<close>

theorem deployable_devices_tolerates_403_only:
  "(get_all_items srv (deployabledevices_endpoint s) True s = Some (Inl e, s') \<longrightarrow>
      get_deployable_devices srv s = (if is_403 e then Some (Inr [], s') else Some (Inl e, s'))) \<and>
   (get srv (deployabledevices_endpoint s) (page_params True 0) s = (Inr r, s') \<and>
    status_code r = 403 \<longrightarrow> get_deployable_devices srv s = Some (Inr [], s')) \<and>
   (get srv (deployabledevices_endpoint s) (page_params True 0) s = (Inr r, s') \<and>
    \<not> (200 \<le> status_code r \<and> status_code r \<le> 299) \<and> status_code r \<noteq> 403 \<longrightarrow>
      get_deployable_devices srv s = Some (Inl (HTTPStatusError r), s')) \<and>
   (get srv (''/api/fmc_config/v1/domain/'' @ domain_uuid s @ ''/devices/devicerecords'')
        (page_params True 0) s = (Inr r, s') \<and> status_code r = 403 \<longrightarrow>
      get_devices srv s = Some (Inl (HTTPStatusError r), s')) \<and>
   (get srv (''/api/fmc_config/v1/domain/'' @ domain_uuid s @ ''/object/networks'')
        (page_params True 0) s = (Inr r, s') \<and> status_code r = 403 \<longrightarrow>
      get_network_objects srv s = Some (Inl (HTTPStatusError r), s')) \<and>
   (get srv (''/api/fmc_config/v1/domain/'' @ domain_uuid s @ ''/object/hosts'')
        (page_params True 0) s = (Inr r, s') \<and> status_code r = 403 \<longrightarrow>
      get_host_objects srv s = Some (Inl (HTTPStatusError r), s')) \<and>
   (get srv path kw s = (Inr r, s') \<and> status_code r = 403 \<longrightarrow>
      get_json srv path kw s = (Inl (HTTPStatusError r), s'))"
proof -
  have a: "get_deployable_devices srv s = (if is_403 e then Some (Inr [], s') else Some (Inl e, s'))"
    if "get_all_items srv (deployabledevices_endpoint s) True s = Some (Inl e, s')"
    using that by (cases e) (simp_all add: get_deployable_devices_def)
  have b: "get_deployable_devices srv s = Some (Inr [], s')"
    if "get srv (deployabledevices_endpoint s) (page_params True 0) s = (Inr r, s')"
      and "status_code r = 403"
    using first_page_refused [OF that(1)] that(2) by (simp add: get_deployable_devices_def)
  have c: "get_deployable_devices srv s = Some (Inl (HTTPStatusError r), s')"
    if "get srv (deployabledevices_endpoint s) (page_params True 0) s = (Inr r, s')"
      and "\<not> (200 \<le> status_code r \<and> status_code r \<le> 299)" and "status_code r \<noteq> 403"
    using first_page_refused [OF that(1,2)] that(3) by (simp add: get_deployable_devices_def)
  have d: "get_all_items srv ep True s = Some (Inl (HTTPStatusError r), s')"
    if "get srv ep (page_params True 0) s = (Inr r, s')" and "status_code r = 403" for ep
    using first_page_refused [OF that(1)] that(2) by simp
  have e: "get_json srv path kw s = (Inl (HTTPStatusError r), s')"
    if "get srv path kw s = (Inr r, s')" and "status_code r = 403"
    using that by (simp add: get_json_def raise_for_status_def)
  show ?thesis
    using a b c d e
    unfolding get_devices_def get_network_objects_def get_host_objects_def by blast
qed

lemma forbidding_get:
  "ep \<noteq> ''/api/fmc_platform/v1/auth/generatetoken'' \<Longrightarrow>
   get forbidding_server ep (page_params True 0) test_session = (Inr forbidden, after_page ep)"
  by (simp add: get_def request_def Let_def send_def exchange_def
      api_request_def page_params_def limit_def forbidding_server_def is_generatetoken_def
      reply_def handle_401_def handle_429_def forbidden_def
      test_session_def after_page_def page_request_def generatetoken_request_def)

lemma test_session_domain: "domain_uuid test_session = default_domain_uuid"
  by (simp add: domain_uuid_def test_session_def)

theorem deployable_devices_tolerates_403_only_witness:
  "get forbidding_server (deployabledevices_endpoint test_session) (page_params True 0)
     test_session = (Inr forbidden, after_page (deployabledevices_endpoint test_session)) \<and>
   status_code forbidden = 403 \<and>
   get_deployable_devices forbidding_server test_session =
     Some (Inr [], after_page (deployabledevices_endpoint test_session)) \<and>
   get forbidding_server devicerecords (page_params True 0) test_session =
     (Inr forbidden, after_page devicerecords) \<and>
   get_devices forbidding_server test_session =
     Some (Inl (HTTPStatusError forbidden), after_page devicerecords)"
proof -
  have e1: "deployabledevices_endpoint test_session \<noteq> ''/api/fmc_platform/v1/auth/generatetoken''"
    by (simp add: deployabledevices_endpoint_def test_session_domain default_domain_uuid_def)
  have e2: "devicerecords \<noteq> ''/api/fmc_platform/v1/auth/generatetoken''"
    by (simp add: devicerecords_def)
  have d: "''/api/fmc_config/v1/domain/'' @ domain_uuid test_session @ ''/devices/devicerecords''
      = devicerecords"
    by (simp add: devicerecords_def test_session_domain default_domain_uuid_def)
  have s: "status_code forbidden = 403" by (simp add: forbidden_def)
  note A = forbidding_get [OF e1]
  note C = forbidding_get [OF e2]
  have B: "get forbidding_server
      (''/api/fmc_config/v1/domain/'' @ domain_uuid test_session @ ''/devices/devicerecords'')
      (page_params True 0) test_session = (Inr forbidden, after_page devicerecords)"
    using C by (simp only: d)
  have R1: "get_deployable_devices forbidding_server test_session =
     Some (Inr [], after_page (deployabledevices_endpoint test_session))"
    using deployable_devices_tolerates_403_only
      [where srv = forbidding_server and s = test_session and r = forbidden
         and s' = "after_page (deployabledevices_endpoint test_session)"] A s
    by blast
  have R2: "get_devices forbidding_server test_session =
     Some (Inl (HTTPStatusError forbidden), after_page devicerecords)"
    using deployable_devices_tolerates_403_only
      [where srv = forbidding_server and s = test_session and r = forbidden
         and s' = "after_page devicerecords"] B s
    by blast
  show ?thesis using A C R1 R2 s by blast
qed

subsection \<open>Domain identifier\<close>

lemma frame_domain: "frame s s' \<Longrightarrow> priv_domain_uuid s = Some d \<Longrightarrow> d \<noteq> [] \<Longrightarrow>
  priv_domain_uuid s' = Some d"
  by (simp add: frame_def)

lemma reachable_configured:
  assumes "reachable st s" and "fmc_domain_uuid st = Some d" and "d \<noteq> []"
  shows "priv_domain_uuid s = Some d"
  using assms
proof (induction rule: reachable.induct)
  case r_init
  then show ?case by (simp add: init_def)
next
  case (r_connect s srv)
  then have p: "priv_domain_uuid s = Some d" by simp
  show ?case
  proof (cases "priv_client s")
    case True
    then show ?thesis using p by (simp add: connect_def)
  next
    case False
    let ?s0 = "s\<lparr>priv_client := True, log := log s @ [SessionOpened]\<rparr>"
    have "frame ?s0 (snd (authenticate srv ?s0))"
      by (rule frame_authenticate [of srv ?s0 "fst (authenticate srv ?s0)"]) simp
    then have "priv_domain_uuid (snd (authenticate srv ?s0)) = Some d"
      using p \<open>d \<noteq> []\<close> by (simp add: frame_def)
    then show ?thesis using False by (simp add: connect_def)
  qed
next
  case (r_close s)
  then show ?case by (simp add: close_def)
next
  case (r_authenticate s srv)
  have "frame s (snd (authenticate srv s))"
    by (rule frame_authenticate [of srv s "fst (authenticate srv s)"]) simp
  then show ?case using r_authenticate frame_domain by blast
next
  case (r_refresh_auth_token s srv)
  have "frame s (snd (refresh_auth_token srv s))"
    by (rule frame_refresh_auth_token [of srv s "fst (refresh_auth_token srv s)"]) simp
  then show ?case using r_refresh_auth_token frame_domain by blast
next
  case (r_request s srv m path kw)
  have "frame s (snd (request srv m path kw s))"
    by (rule frame_request [of srv m path kw s "fst (request srv m path kw s)"]) simp
  then show ?case using r_request frame_domain by blast
next
  case (r_get_all_items s srv endpoint expanded r s')
  then have "frame s s'" using loop_frame by (simp add: get_all_items_def)
  then show ?case using r_get_all_items frame_domain by blast
qed

text \<open>
  C9. A client whose settings configure a (non-empty) domain identifier uses it in every state
  it can reach, and an authentication keeps it whatever the response headers say. A client
  holding no domain identifier (none configured, none discovered) uses the default GUID, and
  the endpoints of its reads are built with it.
\<close>

theorem domain_resolution:
  "(reachable st s \<and> fmc_domain_uuid st = Some d \<and> d \<noteq> [] \<longrightarrow> domain_uuid s = d) \<and>
   (priv_domain_uuid s = Some d \<and> d \<noteq> [] \<longrightarrow> domain_uuid (snd (authenticate srv s)) = d) \<and>
   (\<not> truthy (priv_domain_uuid s) \<longrightarrow>
      domain_uuid s = ''e276abec-e0f2-11e3-8169-6d9ed49b625f'' \<and>
      get_devices srv s =
        get_all_items srv
          ''/api/fmc_config/v1/domain/e276abec-e0f2-11e3-8169-6d9ed49b625f/devices/devicerecords''
          True s \<and>
      get_network_objects srv s =
        get_all_items srv
          ''/api/fmc_config/v1/domain/e276abec-e0f2-11e3-8169-6d9ed49b625f/object/networks''
          True s \<and>
      get_host_objects srv s =
        get_all_items srv
          ''/api/fmc_config/v1/domain/e276abec-e0f2-11e3-8169-6d9ed49b625f/object/hosts''
          True s \<and>
      deployabledevices_endpoint s =
        ''/api/fmc_config/v1/domain/e276abec-e0f2-11e3-8169-6d9ed49b625f/deployment/deployabledevices'')"
proof -
  have a: "domain_uuid s = d" if "reachable st s" "fmc_domain_uuid st = Some d" "d \<noteq> []"
    using reachable_configured [OF that] that(3) by (simp add: domain_uuid_def)
  have b: "domain_uuid (snd (authenticate srv s)) = d"
    if "priv_domain_uuid s = Some d" "d \<noteq> []"
  proof -
    have "frame s (snd (authenticate srv s))"
      by (rule frame_authenticate [of srv s "fst (authenticate srv s)"]) simp
    then show ?thesis using that by (simp add: frame_def domain_uuid_def)
  qed
  have c: "domain_uuid s = ''e276abec-e0f2-11e3-8169-6d9ed49b625f''"
    if "\<not> truthy (priv_domain_uuid s)"
    using that by (simp add: domain_uuid_def default_domain_uuid_def)
  show ?thesis
    using a b c
    by (simp add: get_devices_def get_network_objects_def get_host_objects_def
        deployabledevices_endpoint_def)
qed

theorem domain_resolution_witness:
  "reachable configured_settings configured_session \<and>
   fmc_domain_uuid configured_settings = Some ''test-domain-uuid'' \<and>
   expiring_server [SessionOpened] (generatetoken_request (init configured_settings)) =
     reply 204 [(''X-auth-access-token'', ''old-token''),
                (''X-auth-refresh-token'', ''refresh-token''), (''DOMAIN_UUID'', ''dom-1'')] \<and>
   domain_uuid configured_session = ''test-domain-uuid'' \<and>
   priv_domain_uuid configured_session = Some ''test-domain-uuid'' \<and>
   domain_uuid (snd (authenticate expiring_server configured_session)) = ''test-domain-uuid'' \<and>
   \<not> truthy (priv_domain_uuid test_session) \<and>
   domain_uuid test_session = ''e276abec-e0f2-11e3-8169-6d9ed49b625f''"
proof -
  have r: "reachable configured_settings configured_session"
    unfolding configured_session_def by (rule r_connect [OF r_init])
  have c: "fmc_domain_uuid configured_settings = Some ''test-domain-uuid''"
    by (simp add: configured_settings_def)
  have ne: "''test-domain-uuid'' \<noteq> []" by simp
  have srv: "expiring_server [SessionOpened] (generatetoken_request (init configured_settings)) =
     reply 204 [(''X-auth-access-token'', ''old-token''),
                (''X-auth-refresh-token'', ''refresh-token''), (''DOMAIN_UUID'', ''dom-1'')]"
    by (simp add: expiring_server_def is_generatetoken_def generatetoken_request_def)
  have p: "priv_domain_uuid configured_session = Some ''test-domain-uuid''"
    by (simp add: configured_session_def configured_settings_def scenario_defs)
  have t: "\<not> truthy (priv_domain_uuid test_session)" by (simp add: test_session_def)
  note D1 = domain_resolution [where st = configured_settings and s = configured_session
      and d = "''test-domain-uuid''" and srv = expiring_server]
  note D2 = domain_resolution [where s = test_session]
  have a: "domain_uuid configured_session = ''test-domain-uuid''" using D1 r c ne by blast
  have b: "domain_uuid (snd (authenticate expiring_server configured_session)) =
      ''test-domain-uuid''" using D1 p ne by blast
  have d: "domain_uuid test_session = ''e276abec-e0f2-11e3-8169-6d9ed49b625f''"
    using D2 t by blast
  show ?thesis using r c srv a p b t d by blast
qed

subsection \<open>Rate limiting by the server (429)\<close>

lemma py_int_60: "py_int ''60'' = Some 60"
  by code_simp

lemma py_int_examples:
  "py_int '' 120 '' = Some 120" "py_int ''-5'' = Some (-5)" "py_int ''1_000'' = Some 1000"
  "py_int ''1__0'' = None" "py_int ''1.5'' = None" "py_int '''' = None" "py_int ''+7'' = Some 7"
  "py_int ''Wed, 21 Oct 2026 07:28:00 GMT'' = None" "py_int [CHR 0x1C, CHR ''5''] = None"
  "py_int [CHR 0x0B, CHR ''5'', CHR 0x0C] = Some 5"
  by code_simp+

lemma bits_numeral [simp]:
  "bits 0 = 0" "bits 1 = 1" "bits (numeral (Num.Bit0 k)) = Suc (bits (numeral k))"
  "bits (numeral (Num.Bit1 k)) = Suc (bits (numeral k))"
  by (subst bits.simps, simp)+

lemma float_of_int_examples:
  "float_of_int 60 = Some 60" "float_of_int 9007199254740993 = Some 9007199254740992"
  "float_of_int 9007199254740995 = Some 9007199254740996"
  "float_of_int (- 9007199254740995) = Some (- 9007199254740996)"
  by (simp_all add: float_of_int_def Let_def)

lemma float_of_int_largest:
  "float_of_int (2 ^ 1024 - 2 ^ 970 - 1) = Some (2 ^ 1024 - 2 ^ 971)"
  by (simp add: float_of_int_def Let_def)

lemma float_of_int_overflow: "float_of_int (2 ^ 1024 - 2 ^ 970) = None"
  by (simp add: float_of_int_def Let_def)

lemma bits_le: "n < 2 ^ k \<Longrightarrow> bits n \<le> k"
proof (induction k arbitrary: n)
  case 0
  then show ?case by (subst bits.simps) simp
next
  case (Suc k)
  show ?case
  proof (cases "n \<le> 0")
    case True
    then show ?thesis by (subst bits.simps) simp
  next
    case False
    have "n div 2 < 2 ^ k" using Suc.prems by simp
    from Suc.IH [OF this] False show ?thesis by (subst bits.simps) simp
  qed
qed

lemma bits_pow2: "bits (2 ^ k) = Suc k"
proof (induction k)
  case 0
  show ?case by simp
next
  case (Suc k)
  have "(2::int) ^ Suc k div 2 = 2 ^ k" by simp
  then show ?case using Suc by (subst bits.simps) simp
qed

lemma float_of_int_small:
  assumes "\<bar>n\<bar> \<le> 2 ^ 53"
  shows "float_of_int n = Some n"
proof (cases "\<bar>n\<bar> = 2 ^ 53")
  case True
  then have b: "bits \<bar>n\<bar> = 54" using bits_pow2 [of 53] by simp
  have "sgn n * \<bar>n\<bar> = n" by (simp add: mult_sgn_abs)
  then show ?thesis using True by (simp add: float_of_int_def Let_def b)
next
  case False
  with assms have "\<bar>n\<bar> < 2 ^ 53" by simp
  then have b: "bits \<bar>n\<bar> - 53 = 0" using bits_le [of "\<bar>n\<bar>" 53] by simp
  have lt: "\<bar>n\<bar> < 2 ^ 1024"
    using \<open>\<bar>n\<bar> < 2 ^ 53\<close> by (rule less_trans) simp
  have "sgn n * \<bar>n\<bar> = n" by (simp add: mult_sgn_abs)
  then show ?thesis using lt by (simp add: float_of_int_def Let_def b)
qed

lemma asyncio_sleep_60: "asyncio_sleep 60 = Inr ()"
  by (simp add: asyncio_sleep_def float_of_int_examples)

lemma asyncio_sleep_overflow: "asyncio_sleep (2 ^ 1024 - 2 ^ 970) = Inl OverflowError"
proof -
  have p: "\<not> ((2::int) ^ 1024 - 2 ^ 970 \<le> 0)" by simp
  show ?thesis
    by (simp only: asyncio_sleep_def p if_False float_of_int_overflow option.case)
qed

lemma handle_429_sleep_raises:
  assumes "status_code r = 429" and "retry_after r = Some n" and "asyncio_sleep n = Inl e"
  shows "handle_429 srv m path kw hs r s = (Inl e, s)"
  using assms by (simp add: handle_429_def)

lemma handle_429_retry:
  assumes "status_code r = 429" and "retry_after r = Some n" and "asyncio_sleep n = Inr ()"
  shows "handle_429 srv m path kw hs r s =
     ((case srv (log s @ [Sleep n]) (api_request m path hs kw) of
         Response r' \<Rightarrow> Inr r' | Raises e \<Rightarrow> Inl (Raised e)),
      s\<lparr>log := log s @ [Sleep n, Http (api_request m path hs kw)]\<rparr>)"
  using assms by (simp add: handle_429_def send_def exchange_def split: outcome.splits)

lemma request_unfold:
  assumes "priv_client s"
    and "hs = set_item ''X-auth-access-token'' (of_token (priv_access_token s)) (kw_headers kw)"
    and "send srv m path hs kw (s\<lparr>log := log s @ [RateLimiterAcquire]\<rparr>) = (Inr r0, s1)"
    and "handle_401 srv m path kw hs r0 s1 = (Inr (hs', r), s2)"
  shows "request srv m path kw s = handle_429 srv m path kw hs' r s2"
  using assms by (simp add: request_def Let_def)

text \<open>
  C1 (as amended). Let the response that \<^verbatim>\<open>_request\<close> has after its 401 block (the first
  response, or the one of the retry after a 401) have status 429, with the
  \<^verbatim>\<open>Retry-After\<close> header absent, or holding an integer literal that
  \<^verbatim>\<open>asyncio.sleep\<close> accepts. Then the client sleeps once, for 60 seconds when the header is
  absent and for the header's value otherwise, sends the call once more, and returns whatever
  comes back: the log grows by exactly the sleep and the one call. A second 429 is returned as
  it is by \<^verbatim>\<open>get\<close> and raised as the HTTP status error by \<^verbatim>\<open>get_json\<close>.
\<close>

theorem request_retries_429_once:
  assumes connected: "priv_client s"
    and hs: "hs = set_item ''X-auth-access-token'' (of_token (priv_access_token s)) (kw_headers kw)"
    and first: "send srv m path hs kw (s\<lparr>log := log s @ [RateLimiterAcquire]\<rparr>) = (Inr r0, s1)"
    and after_401: "handle_401 srv m path kw hs r0 s1 = (Inr (hs', r), s2)"
    and limited: "status_code r = 429"
    and header: "headers_get r ''Retry-After'' = None \<or>
                 (\<exists>v k. headers_get r ''Retry-After'' = Some v \<and> py_int v = Some k \<and>
                        asyncio_sleep k = Inr ())"
  shows "\<exists>n. (headers_get r ''Retry-After'' = None \<longrightarrow> n = 60) \<and>
             (\<forall>v. headers_get r ''Retry-After'' = Some v \<longrightarrow> py_int v = Some n) \<and>
             request srv m path kw s =
               ((case srv (log s2 @ [Sleep n]) (api_request m path hs' kw) of
                   Response r' \<Rightarrow> Inr r' | Raises e \<Rightarrow> Inl (Raised e)),
                s2\<lparr>log := log s2 @ [Sleep n, Http (api_request m path hs' kw)]\<rparr>) \<and>
             (\<forall>r'. m = ''GET'' \<and>
                  srv (log s2 @ [Sleep n]) (api_request m path hs' kw) = Response r' \<and>
                  status_code r' = 429 \<longrightarrow>
                  get srv path kw s =
                    (Inr r', s2\<lparr>log := log s2 @ [Sleep n, Http (api_request m path hs' kw)]\<rparr>) \<and>
                  get_json srv path kw s =
                    (Inl (HTTPStatusError r'),
                     s2\<lparr>log := log s2 @ [Sleep n, Http (api_request m path hs' kw)]\<rparr>))"
proof -
  have "\<exists>n. (retry_after r = Some n \<and> asyncio_sleep n = Inr ()) \<and>
            (headers_get r ''Retry-After'' = None \<longrightarrow> n = 60) \<and>
            (\<forall>v. headers_get r ''Retry-After'' = Some v \<longrightarrow> py_int v = Some n)"
  proof (cases "headers_get r ''Retry-After''")
    case None
    then show ?thesis by (simp add: retry_after_def py_int_60 asyncio_sleep_60)
  next
    case (Some v)
    with header obtain k where "py_int v = Some k" and "asyncio_sleep k = Inr ()" by auto
    with Some show ?thesis by (simp add: retry_after_def)
  qed
  then obtain n where all: "(retry_after r = Some n \<and> asyncio_sleep n = Inr ()) \<and>
      (headers_get r ''Retry-After'' = None \<longrightarrow> n = 60) \<and>
      (\<forall>v. headers_get r ''Retry-After'' = Some v \<longrightarrow> py_int v = Some n)" ..
  note n = all [THEN conjunct1, THEN conjunct1]
  note sleeps = all [THEN conjunct1, THEN conjunct2]
  note absent = all [THEN conjunct2, THEN conjunct1]
  note present = all [THEN conjunct2, THEN conjunct2]
  let ?rq = "api_request m path hs' kw"
  let ?final = "s2\<lparr>log := log s2 @ [Sleep n, Http ?rq]\<rparr>"
  have req: "request srv m path kw s =
      ((case srv (log s2 @ [Sleep n]) ?rq of
          Response r' \<Rightarrow> Inr r' | Raises e \<Rightarrow> Inl (Raised e)), ?final)"
    using request_unfold [OF connected hs first after_401] handle_429_retry [OF limited n sleeps]
    by simp
  have again: "get srv path kw s = (Inr r', ?final) \<and>
        get_json srv path kw s = (Inl (HTTPStatusError r'), ?final)"
    if a: "m = ''GET''" and b: "srv (log s2 @ [Sleep n]) ?rq = Response r'"
      and c: "status_code r' = 429" for r'
  proof -
    have "request srv m path kw s = (Inr r', ?final)"
      using req b by simp
    then have g: "get srv path kw s = (Inr r', ?final)"
      using a by (simp add: get_def)
    have "raise_for_status r' = Inl (HTTPStatusError r')"
      using c by (simp add: raise_for_status_def)
    with g show ?thesis by (simp add: get_json_def)
  qed
  show ?thesis
  proof (intro exI [of _ n] conjI allI impI)
    show "headers_get r ''Retry-After'' = None \<Longrightarrow> n = 60" using absent by simp
    show "\<And>v. headers_get r ''Retry-After'' = Some v \<Longrightarrow> py_int v = Some n"
      using present by simp
    show "request srv m path kw s =
      ((case srv (log s2 @ [Sleep n]) ?rq of
          Response r' \<Rightarrow> Inr r' | Raises e \<Rightarrow> Inl (Raised e)), ?final)"
      by (rule req)
    fix r'
    assume h: "m = ''GET'' \<and> srv (log s2 @ [Sleep n]) ?rq = Response r' \<and> status_code r' = 429"
    note both = again [OF h [THEN conjunct1] h [THEN conjunct2, THEN conjunct1]
        h [THEN conjunct2, THEN conjunct2]]
    show "get srv path kw s = (Inr r', ?final)" by (rule both [THEN conjunct1])
    show "get_json srv path kw s = (Inl (HTTPStatusError r'), ?final)"
      by (rule both [THEN conjunct2])
  qed
qed

lemma throttled_first:
  "send (throttling_server hs) ''GET'' serverversion
     [(''X-auth-access-token'', Str ''test-access-token'')] no_kwargs
     (test_session\<lparr>log := log test_session @ [RateLimiterAcquire]\<rparr>) =
   (Inr (too_many hs), asked_once)"
  by (simp add: send_def exchange_def api_request_def throttling_server_def is_generatetoken_def
      serverversion_def no_kwargs_def asked_once_def version_request_def test_session_def)

lemma throttled_again:
  "throttling_server hs tr (api_request ''GET'' serverversion hs' no_kwargs) =
     Response (too_many hs)"
  by (simp add: throttling_server_def is_generatetoken_def api_request_def serverversion_def)

lemma throttled_401:
  "handle_401 srv ''GET'' serverversion no_kwargs hs' (too_many hs) s = (Inr (hs', too_many hs), s)"
  by (simp add: handle_401_def too_many_def)

theorem request_retries_429_once_witness:
  "priv_client test_session \<and>
   headers_get (too_many []) ''Retry-After'' = None \<and>
   get (throttling_server []) serverversion no_kwargs test_session =
     (Inr (too_many []),
      asked_once\<lparr>log := log asked_once @ [Sleep 60, Http version_request]\<rparr>) \<and>
   get_json (throttling_server []) serverversion no_kwargs test_session =
     (Inl (HTTPStatusError (too_many [])),
      asked_once\<lparr>log := log asked_once @ [Sleep 60, Http version_request]\<rparr>)"
proof -
  let ?hs = "[(''X-auth-access-token'', Str ''test-access-token'')]"
  have c: "priv_client test_session" by (simp add: test_session_def)
  have hs: "?hs = set_item ''X-auth-access-token'' (of_token (priv_access_token test_session))
      (kw_headers no_kwargs)"
    by (simp add: test_session_def no_kwargs_def)
  have l: "status_code (too_many []) = 429" by (simp add: too_many_def)
  have h: "headers_get (too_many []) ''Retry-After'' = None"
    by (simp add: too_many_def headers_get_def)
  have h': "headers_get (too_many []) ''Retry-After'' = None \<or>
      (\<exists>v k. headers_get (too_many []) ''Retry-After'' = Some v \<and> py_int v = Some k \<and>
             asyncio_sleep k = Inr ())"
    using h by simp
  have rq: "api_request ''GET'' serverversion ?hs no_kwargs = version_request"
    by (simp add: api_request_def version_request_def no_kwargs_def)
  from request_retries_429_once [OF c hs throttled_first throttled_401 l h']
  obtain n where n: "(headers_get (too_many []) ''Retry-After'' = None \<longrightarrow> n = 60) \<and>
      (\<forall>v. headers_get (too_many []) ''Retry-After'' = Some v \<longrightarrow> py_int v = Some n) \<and>
      request (throttling_server []) ''GET'' serverversion no_kwargs test_session =
        ((case throttling_server [] (log asked_once @ [Sleep n])
                (api_request ''GET'' serverversion ?hs no_kwargs) of
            Response r' \<Rightarrow> Inr r' | Raises e \<Rightarrow> Inl (Raised e)),
         asked_once\<lparr>log := log asked_once @
            [Sleep n, Http (api_request ''GET'' serverversion ?hs no_kwargs)]\<rparr>) \<and>
      (\<forall>r'. ''GET'' = ''GET'' \<and>
          throttling_server [] (log asked_once @ [Sleep n])
            (api_request ''GET'' serverversion ?hs no_kwargs) = Response r' \<and>
          status_code r' = 429 \<longrightarrow>
          get (throttling_server []) serverversion no_kwargs test_session =
            (Inr r', asked_once\<lparr>log := log asked_once @
               [Sleep n, Http (api_request ''GET'' serverversion ?hs no_kwargs)]\<rparr>) \<and>
          get_json (throttling_server []) serverversion no_kwargs test_session =
            (Inl (HTTPStatusError r'),
             asked_once\<lparr>log := log asked_once @
               [Sleep n, Http (api_request ''GET'' serverversion ?hs no_kwargs)]\<rparr>))" ..
  have n60: "n = 60" using n [THEN conjunct1] h by simp
  note last = n [THEN conjunct2, THEN conjunct2, THEN conjunct2, rule_format, of "too_many []"]
  have "get (throttling_server []) serverversion no_kwargs test_session =
            (Inr (too_many []), asked_once\<lparr>log := log asked_once @
               [Sleep n, Http (api_request ''GET'' serverversion ?hs no_kwargs)]\<rparr>) \<and>
          get_json (throttling_server []) serverversion no_kwargs test_session =
            (Inl (HTTPStatusError (too_many [])),
             asked_once\<lparr>log := log asked_once @
               [Sleep n, Http (api_request ''GET'' serverversion ?hs no_kwargs)]\<rparr>)"
    by (rule last) (simp add: throttled_again l)
  then show ?thesis using c h by (simp add: n60 rq)
qed

lemma py_int_date: "py_int ''Wed, 21 Oct 2026 07:28:00 GMT'' = None"
  by code_simp

text \<open>
  C1 as stated fails for a header that is present and not an integer literal, such as an HTTP
  date: \<^verbatim>\<open>int\<close> raises \<^verbatim>\<open>ValueError\<close>, and the call ends after its single request,
  without a sleep and without a retry.
\<close>

theorem request_unparseable_retry_after:
  "get (throttling_server [(''Retry-After'', ''Wed, 21 Oct 2026 07:28:00 GMT'')])
     serverversion no_kwargs test_session = (Inl ValueError, asked_once)"
proof -
  let ?hs = "[(''X-auth-access-token'', Str ''test-access-token'')]"
  let ?d = "[(''Retry-After'', ''Wed, 21 Oct 2026 07:28:00 GMT'')]"
  have c: "priv_client test_session" by (simp add: test_session_def)
  have hs: "?hs = set_item ''X-auth-access-token'' (of_token (priv_access_token test_session))
      (kw_headers no_kwargs)"
    by (simp add: test_session_def no_kwargs_def)
  have "retry_after (too_many ?d) = None"
    by (simp add: retry_after_def headers_get_def too_many_def py_int_date)
  then have "handle_429 (throttling_server ?d) ''GET'' serverversion no_kwargs ?hs (too_many ?d)
      asked_once = (Inl ValueError, asked_once)"
    by (simp add: handle_429_def too_many_def)
  then show ?thesis
    using request_unfold [OF c hs throttled_first throttled_401] by (simp add: get_def)
qed

subsection \<open>Expired tokens (401)\<close>

lemma authenticate_log:
  "authenticate srv s = (r, s') \<Longrightarrow>
   log s' = log s \<or> log s' = log s @ [Http (generatetoken_request s)]"
  by (auto simp: authenticate_def exchange_def discover_domain_def
      split: if_splits outcome.splits)

lemma generatetoken_not_refresh: "\<not> is_refresh_call (Http (generatetoken_request s))"
  by (simp add: is_refreshtoken_def generatetoken_request_def)

lemma rc_authenticate: "authenticate srv s = (r, s') \<Longrightarrow> refresh_calls s' = refresh_calls s"
  using authenticate_log [of srv s r s'] generatetoken_not_refresh [of s]
  by (auto simp: refresh_calls_def)

lemma rc_authenticate_return_True:
  "authenticate_return_True srv s = (r, s') \<Longrightarrow> refresh_calls s' = refresh_calls s"
  by (auto simp: authenticate_return_True_def split: prod.splits sum.splits dest: rc_authenticate)

lemma rc_exchange: "exchange srv rq s = (out, s') \<Longrightarrow> refresh_calls s' \<le> refresh_calls s + 1"
  by (auto simp: exchange_def refresh_calls_def)

lemma rc_refresh_auth_token:
  "refresh_auth_token srv s = (r, s') \<Longrightarrow> refresh_calls s' \<le> refresh_calls s + 1"
  apply (auto simp: refresh_auth_token_def split: if_splits prod.splits outcome.splits sum.splits
      dest!: rc_authenticate_return_True rc_authenticate rc_exchange)
  apply (auto simp: refresh_calls_def exchange_def)
  done

lemma send_eq:
  "send srv m path hs kw s =
     ((case srv (log s) (api_request m path hs kw) of
         Response r \<Rightarrow> Inr r | Raises e \<Rightarrow> Inl (Raised e)),
      s\<lparr>log := log s @ [Http (api_request m path hs kw)]\<rparr>)"
  by (simp add: send_def exchange_def split: outcome.splits)

lemma handle_429_other: "status_code r \<noteq> 429 \<Longrightarrow> handle_429 srv m path kw hs r s = (Inr r, s)"
  by (simp add: handle_429_def)

text \<open>
  C6 (as amended). Let the first response of a call of \<^verbatim>\<open>_request\<close> have status 401. The
  client runs \<^verbatim>\<open>_refresh_auth_token\<close> once, which sends at most one refresh request. If
  that raises (the re-authentication it falls back to has failed), the exception leaves
  \<^verbatim>\<open>_request\<close> and the call is not retried. If it returns, the call is sent exactly once
  more, with the access token the client now holds: an exception of the transport leaves
  \<^verbatim>\<open>_request\<close>, and a response other than 429, a second 401 included, is returned with
  nothing sent after it; \<^verbatim>\<open>get_json\<close> raises a second 401 as the HTTP status error.
\<close>

theorem request_refreshes_401_once:
  assumes connected: "priv_client s"
    and hs: "hs = set_item ''X-auth-access-token'' (of_token (priv_access_token s)) (kw_headers kw)"
    and first: "send srv m path hs kw (s\<lparr>log := log s @ [RateLimiterAcquire]\<rparr>) = (Inr r0, s1)"
    and expired: "status_code r0 = 401"
    and refreshed: "refresh_auth_token srv s1 = (res, s2)"
    and retry: "rq = api_request m path
                  (set_item ''X-auth-access-token'' (of_token (priv_access_token s2)) hs) kw"
  shows "refresh_calls s2 \<le> refresh_calls s1 + 1 \<and>
         (\<forall>e. res = Inl e \<longrightarrow> request srv m path kw s = (Inl e, s2)) \<and>
         (\<forall>b e. res = Inr b \<and> srv (log s2) rq = Raises e \<longrightarrow>
            request srv m path kw s = (Inl (Raised e), s2\<lparr>log := log s2 @ [Http rq]\<rparr>)) \<and>
         (\<forall>b r. res = Inr b \<and> srv (log s2) rq = Response r \<and> status_code r \<noteq> 429 \<longrightarrow>
            request srv m path kw s = (Inr r, s2\<lparr>log := log s2 @ [Http rq]\<rparr>)) \<and>
         (\<forall>b r. res = Inr b \<and> srv (log s2) rq = Response r \<and> status_code r = 401 \<and> m = ''GET'' \<longrightarrow>
            get_json srv path kw s =
              (Inl (HTTPStatusError r), s2\<lparr>log := log s2 @ [Http rq]\<rparr>))"
proof -
  let ?hs' = "set_item ''X-auth-access-token'' (of_token (priv_access_token s2)) hs"
  let ?s3 = "s2\<lparr>log := log s2 @ [Http rq]\<rparr>"
  have unfold: "request srv m path kw s =
      (case handle_401 srv m path kw hs r0 s1 of
         (Inl e, s2) \<Rightarrow> (Inl e, s2)
       | (Inr (hs', r'), s2) \<Rightarrow> handle_429 srv m path kw hs' r' s2)"
    using connected hs first by (simp add: request_def Let_def)
  have h401: "handle_401 srv m path kw hs r0 s1 =
      (case res of
         Inl e \<Rightarrow> (Inl e, s2)
       | Inr b \<Rightarrow>
           (case srv (log s2) rq of
              Raises e \<Rightarrow> (Inl (Raised e), ?s3)
            | Response r \<Rightarrow> (Inr (?hs', r), ?s3)))"
    using expired refreshed retry
    by (simp add: handle_401_def Let_def send_eq split: sum.splits outcome.splits)
  have a: "refresh_calls s2 \<le> refresh_calls s1 + 1"
    using refreshed by (rule rc_refresh_auth_token)
  have b: "request srv m path kw s = (Inl e, s2)" if "res = Inl e" for e
    using that unfold h401 by simp
  have c: "request srv m path kw s = (Inl (Raised e), ?s3)"
    if "res = Inr b" and "srv (log s2) rq = Raises e" for b e
    using that unfold h401 by simp
  have d: "request srv m path kw s = (Inr r, ?s3)"
    if "res = Inr b" and "srv (log s2) rq = Response r" and "status_code r \<noteq> 429" for b r
    using that unfold h401 by (simp add: handle_429_other)
  have e: "get_json srv path kw s = (Inl (HTTPStatusError r), ?s3)"
    if "res = Inr b" and "srv (log s2) rq = Response r" and "status_code r = 401"
      and "m = ''GET''" for b r
  proof -
    have "request srv ''GET'' path kw s = (Inr r, ?s3)"
      using d [OF that(1,2)] that(3,4) by simp
    then show ?thesis using that(3) by (simp add: get_json_def get_def raise_for_status_def)
  qed
  show ?thesis
  proof (intro conjI allI impI)
    show "refresh_calls s2 \<le> refresh_calls s1 + 1" by (rule a)
    show "\<And>e. res = Inl e \<Longrightarrow> request srv m path kw s = (Inl e, s2)" by (rule b)
    show "\<And>b e. res = Inr b \<and> srv (log s2) rq = Raises e \<Longrightarrow>
        request srv m path kw s = (Inl (Raised e), ?s3)"
      using c by (elim conjE)
    show "\<And>b r. res = Inr b \<and> srv (log s2) rq = Response r \<and> status_code r \<noteq> 429 \<Longrightarrow>
        request srv m path kw s = (Inr r, ?s3)"
      using d by (elim conjE)
    show "\<And>b r. res = Inr b \<and> srv (log s2) rq = Response r \<and> status_code r = 401 \<and> m = ''GET'' \<Longrightarrow>
        get_json srv path kw s = (Inl (HTTPStatusError r), ?s3)"
      using e by (elim conjE)
  qed
qed

lemma stale_first:
  "send stale_server ''GET'' serverversion
     [(''X-auth-access-token'', Str ''test-access-token'')] no_kwargs
     (test_session\<lparr>log := log test_session @ [RateLimiterAcquire]\<rparr>) =
   (Inr unauthorized, asked_once)"
  by (simp add: send_def exchange_def api_request_def stale_server_def is_generatetoken_def
      is_refreshtoken_def
      serverversion_def no_kwargs_def asked_once_def version_request_def test_session_def)

lemma stale_refresh: "refresh_auth_token stale_server asked_once = (Inr True, token_refreshed)"
  by (simp add: refresh_auth_token_def exchange_def stale_server_def is_generatetoken_def
      is_refreshtoken_def refreshtoken_request_def reply_def headers_get_def
      asked_once_def test_session_def token_refreshed_def)

lemma stale_retry:
  "api_request ''GET'' serverversion
     (set_item ''X-auth-access-token'' (of_token (priv_access_token token_refreshed))
        [(''X-auth-access-token'', Str ''test-access-token'')]) no_kwargs = version_retry"
  by (simp add: api_request_def token_refreshed_def version_retry_def version_request_def
      no_kwargs_def)

lemma stale_again: "stale_server tr version_retry = Response unauthorized"
  by (simp add: stale_server_def is_generatetoken_def is_refreshtoken_def version_retry_def
      version_request_def serverversion_def)

theorem request_refreshes_401_once_witness:
  "priv_client test_session \<and> status_code unauthorized = 401 \<and>
   refresh_auth_token stale_server asked_once = (Inr True, token_refreshed) \<and>
   refresh_calls token_refreshed \<le> refresh_calls asked_once + 1 \<and>
   request stale_server ''GET'' serverversion no_kwargs test_session =
     (Inr unauthorized, token_refreshed\<lparr>log := log token_refreshed @ [Http version_retry]\<rparr>) \<and>
   get_json stale_server serverversion no_kwargs test_session =
     (Inl (HTTPStatusError unauthorized),
      token_refreshed\<lparr>log := log token_refreshed @ [Http version_retry]\<rparr>)"
proof -
  let ?hs = "[(''X-auth-access-token'', Str ''test-access-token'')]"
  have c: "priv_client test_session" by (simp add: test_session_def)
  have hs: "?hs = set_item ''X-auth-access-token'' (of_token (priv_access_token test_session))
      (kw_headers no_kwargs)"
    by (simp add: test_session_def no_kwargs_def)
  have u: "status_code unauthorized = 401" by (simp add: unauthorized_def)
  have n: "status_code unauthorized \<noteq> 429" by (simp add: unauthorized_def)
  note T = request_refreshes_401_once
    [OF c hs stale_first u stale_refresh stale_retry [symmetric]]
  have r1: "refresh_calls token_refreshed \<le> refresh_calls asked_once + 1"
    by (rule T [THEN conjunct1])
  have r2: "request stale_server ''GET'' serverversion no_kwargs test_session =
     (Inr unauthorized, token_refreshed\<lparr>log := log token_refreshed @ [Http version_retry]\<rparr>)"
    using T [THEN conjunct2, THEN conjunct2, THEN conjunct2, THEN conjunct1, rule_format,
        of True unauthorized] stale_again n by simp
  have r3: "get_json stale_server serverversion no_kwargs test_session =
     (Inl (HTTPStatusError unauthorized),
      token_refreshed\<lparr>log := log token_refreshed @ [Http version_retry]\<rparr>)"
    using T [THEN conjunct2, THEN conjunct2, THEN conjunct2, THEN conjunct2, rule_format,
        of True unauthorized] stale_again u by simp
  show ?thesis using c u stale_refresh r1 r2 r3 by simp
qed

text \<open>
  C6 as stated fails when the refresh is refused and the re-authentication is refused too: the
  call ends with the authentication error after one refresh request and two token-generation
  requests, and the request itself is never sent a second time.
\<close>

theorem request_not_retried_when_reauthentication_fails:
  "connect revoked_server (init test_settings) = (Inr (), test_session) \<and>
   request revoked_server ''GET'' serverversion no_kwargs test_session =
     (Inl (AuthenticationFailed 401),
      asked_once\<lparr>log := log asked_once @
         [Http (refreshtoken_request test_session), Http (generatetoken_request test_session),
          Http (generatetoken_request test_session)]\<rparr>)"
  by (simp add: connect_def init_def authenticate_def exchange_def revoked_server_def
      test_auth_reply_def unauthorized_def authenticate_return_True_def
      is_generatetoken_def is_refreshtoken_def generatetoken_request_def reply_def headers_get_def
      discover_domain_def test_settings_def test_session_def send_def api_request_def
      handle_401_def refresh_auth_token_def refreshtoken_request_def no_kwargs_def
      request_def Let_def asked_once_def version_request_def serverversion_def)

subsection \<open>The refresh counter\<close>

lemmas run_defs =
  connect_def init_def authenticate_def exchange_def is_generatetoken_def
  is_refreshtoken_def generatetoken_request_def reply_def headers_get_def discover_domain_def
  test_settings_def send_def api_request_def handle_401_def handle_429_def
  refresh_auth_token_def refreshtoken_request_def no_kwargs_def get_def request_def Let_def
  serverversion_def unauthorized_def authenticate_return_True_def

lemma worn_session_fields:
  "priv_client worn_session"
  "priv_refresh_count worn_session = 3"
  "priv_max_refreshes worn_session = 3"
  "priv_refresh_token worn_session = None"
  "priv_access_token worn_session = Some ''A3''"
  by (simp_all add: worn_session_def forgetful_server_def run_defs)

lemma frame_max: "frame s s' \<Longrightarrow> priv_max_refreshes s' = priv_max_refreshes s"
  by (simp add: frame_def)

lemma reachable_max_refreshes: "reachable st s \<Longrightarrow> priv_max_refreshes s = 3"
proof (induction rule: reachable.induct)
  case r_init
  show ?case by (simp add: init_def)
next
  case (r_connect s srv)
  let ?s0 = "s\<lparr>priv_client := True, log := log s @ [SessionOpened]\<rparr>"
  have "frame ?s0 (snd (authenticate srv ?s0))"
    by (rule frame_authenticate [of srv ?s0 "fst (authenticate srv ?s0)"]) simp
  then have "priv_max_refreshes (snd (authenticate srv ?s0)) = priv_max_refreshes s"
    by (simp add: frame_def)
  then show ?case using r_connect by (simp add: connect_def)
next
  case (r_close s)
  then show ?case by (simp add: close_def)
next
  case (r_authenticate s srv)
  have "frame s (snd (authenticate srv s))"
    by (rule frame_authenticate [of srv s "fst (authenticate srv s)"]) simp
  then show ?case using r_authenticate frame_max by fastforce
next
  case (r_refresh_auth_token s srv)
  have "frame s (snd (refresh_auth_token srv s))"
    by (rule frame_refresh_auth_token [of srv s "fst (refresh_auth_token srv s)"]) simp
  then show ?case using r_refresh_auth_token frame_max by fastforce
next
  case (r_request s srv m path kw)
  have "frame s (snd (request srv m path kw s))"
    by (rule frame_request [of srv m path kw s "fst (request srv m path kw s)"]) simp
  then show ?case using r_request frame_max by fastforce
next
  case (r_get_all_items s srv endpoint expanded r s')
  then have "frame s s'" using loop_frame by (simp add: get_all_items_def)
  then show ?case using r_get_all_items frame_max by fastforce
qed

lemma authenticate_resets:
  "fst (authenticate srv s) = Inr () \<Longrightarrow> priv_refresh_count (snd (authenticate srv s)) = 0"
  by (auto simp: authenticate_def exchange_def discover_domain_def
      split: if_splits outcome.splits)

lemma authenticate_sends:
  "priv_client s \<Longrightarrow> log (snd (authenticate srv s)) = log s @ [Http (generatetoken_request s)]"
  by (auto simp: authenticate_def exchange_def discover_domain_def
      split: if_splits outcome.splits)

lemma refresh_success:
  assumes "priv_client s" and "truthy (priv_refresh_token s)"
      and "priv_refresh_count s < priv_max_refreshes s"
      and "srv (log s) (refreshtoken_request s) = Response r" and "status_code r = 204"
  shows "fst (refresh_auth_token srv s) = Inr True \<and>
         priv_refresh_count (snd (refresh_auth_token srv s)) = priv_refresh_count s + 1 \<and>
         log (snd (refresh_auth_token srv s)) = log s @ [Http (refreshtoken_request s)]"
  using assms by (simp add: refresh_auth_token_def exchange_def)

lemma refresh_at_ceiling:
  assumes "priv_client s" and "truthy (priv_refresh_token s)"
      and "priv_max_refreshes s = 3" and "priv_refresh_count s \<ge> 3"
  shows "refresh_auth_token srv s = authenticate_return_True srv s \<and>
         log (snd (refresh_auth_token srv s)) = log s @ [Http (generatetoken_request s)] \<and>
         (fst (refresh_auth_token srv s) = Inr True \<longrightarrow>
            priv_refresh_count (snd (refresh_auth_token srv s)) = 0)"
proof -
  have eq: "refresh_auth_token srv s = authenticate_return_True srv s"
    using assms by (simp add: refresh_auth_token_def)
  obtain x s' where a: "authenticate srv s = (x, s')" by (cases "authenticate srv s")
  have l: "log s' = log s @ [Http (generatetoken_request s)]"
    using authenticate_sends [OF assms(1), of srv] a by simp
  have z: "x = Inr () \<Longrightarrow> priv_refresh_count s' = 0"
    using authenticate_resets [of srv s] a by simp
  show ?thesis
    using eq a l z by (cases x) (simp_all add: authenticate_return_True_def)
qed

text \<open>
  The counter where the code keeps to the rule. A successful authentication leaves the refresh
  counter at 0. A refresh request answered 204 adds exactly 1 to it. The ceiling of every
  client is 3, and once the counter has reached it, a refresh attempt of a connected client
  that holds a refresh token sends the token-generation request and no refresh request, and
  leaves the counter at 0 when that authentication succeeds.
\<close>

theorem refresh_counter:
  "(fst (authenticate srv s) = Inr () \<longrightarrow> priv_refresh_count (snd (authenticate srv s)) = 0) \<and>
   (priv_client s \<and> truthy (priv_refresh_token s) \<and>
    priv_refresh_count s < priv_max_refreshes s \<and>
    srv (log s) (refreshtoken_request s) = Response r \<and> status_code r = 204 \<longrightarrow>
      fst (refresh_auth_token srv s) = Inr True \<and>
      priv_refresh_count (snd (refresh_auth_token srv s)) = priv_refresh_count s + 1 \<and>
      log (snd (refresh_auth_token srv s)) = log s @ [Http (refreshtoken_request s)]) \<and>
   (reachable st s \<longrightarrow> priv_max_refreshes s = 3) \<and>
   (priv_client s \<and> truthy (priv_refresh_token s) \<and> priv_max_refreshes s = 3 \<and>
    priv_refresh_count s \<ge> 3 \<longrightarrow>
      refresh_auth_token srv s = authenticate_return_True srv s \<and>
      log (snd (refresh_auth_token srv s)) = log s @ [Http (generatetoken_request s)] \<and>
      (fst (refresh_auth_token srv s) = Inr True \<longrightarrow>
         priv_refresh_count (snd (refresh_auth_token srv s)) = 0))"
  using authenticate_resets [of srv s] refresh_success [of s srv r]
    reachable_max_refreshes [of st s] refresh_at_ceiling [of s srv]
  by (intro conjI impI; (elim conjE)?; simp)

lemma ceiling_session_fields:
  "priv_client ceiling_session"
  "priv_refresh_count ceiling_session = 3"
  "priv_max_refreshes ceiling_session = 3"
  "priv_refresh_token ceiling_session = Some ''new-refresh-token''"
  "settings ceiling_session = test_settings"
  by (simp_all add: ceiling_session_def stale_server_def test_session_def test_auth_reply_def
      run_defs)

theorem refresh_counter_witness:
  "priv_client asked_once \<and> truthy (priv_refresh_token asked_once) \<and>
   priv_refresh_count asked_once = 0 \<and>
   priv_refresh_count (snd (refresh_auth_token stale_server asked_once)) = 1 \<and>
   reachable test_settings (init test_settings) \<and> priv_max_refreshes (init test_settings) = 3 \<and>
   priv_client ceiling_session \<and> truthy (priv_refresh_token ceiling_session) \<and>
   priv_refresh_count ceiling_session = 3 \<and>
   log (snd (refresh_auth_token stale_server ceiling_session)) =
     log ceiling_session @ [Http (generatetoken_request ceiling_session)] \<and>
   fst (refresh_auth_token stale_server ceiling_session) = Inr True \<and>
   priv_refresh_count (snd (refresh_auth_token stale_server ceiling_session)) = 0"
proof -
  have a1: "priv_client asked_once" "truthy (priv_refresh_token asked_once)"
    "priv_refresh_count asked_once = 0" "priv_refresh_count asked_once < priv_max_refreshes asked_once"
    by (simp_all add: asked_once_def test_session_def)
  have a2: "stale_server (log asked_once) (refreshtoken_request asked_once) =
      Response \<lparr>status_code = 204, headers = [(''X-auth-access-token'', ''new-token''),
                   (''X-auth-refresh-token'', ''new-refresh-token'')], text_body = [],
                   json_body = None\<rparr>"
    by (simp add: stale_server_def is_generatetoken_def is_refreshtoken_def
        refreshtoken_request_def reply_def)
  note T1 = refresh_counter [where s = asked_once and srv = stale_server, THEN conjunct2,
      THEN conjunct1, rule_format]
  have w1: "priv_refresh_count (snd (refresh_auth_token stale_server asked_once)) = 1"
    using T1 [OF conjI [OF a1(1) conjI [OF a1(2) conjI [OF a1(4) conjI [OF a2]]]]] a1(3)
    by simp
  have w2: "priv_max_refreshes (init test_settings) = 3"
    using refresh_counter [where st = test_settings and s = "init test_settings",
        THEN conjunct2, THEN conjunct2, THEN conjunct1] r_init by simp
  have t: "truthy (priv_refresh_token ceiling_session)" by (simp add: ceiling_session_fields)
  have g: "priv_refresh_count ceiling_session \<ge> 3" by (simp add: ceiling_session_fields)
  note T2 = refresh_counter [where s = ceiling_session and srv = stale_server,
      THEN conjunct2, THEN conjunct2, THEN conjunct2, rule_format,
      OF conjI [OF ceiling_session_fields(1) conjI [OF t conjI [OF ceiling_session_fields(3) g]]]]
  have ok: "fst (authenticate_return_True stale_server ceiling_session) = Inr True"
    by (simp add: authenticate_return_True_def authenticate_def exchange_def
        ceiling_session_fields stale_server_def is_generatetoken_def generatetoken_request_def
        test_auth_reply_def reply_def)
  have ok': "fst (refresh_auth_token stale_server ceiling_session) = Inr True"
    using T2 [THEN conjunct1] ok by simp
  have w3: "priv_refresh_count (snd (refresh_auth_token stale_server ceiling_session)) = 0"
    using T2 [THEN conjunct2, THEN conjunct2] ok' by simp
  show ?thesis
    using a1 w1 r_init w2 ceiling_session_fields t T2 [THEN conjunct2, THEN conjunct1] ok' w3
    by simp
qed

text \<open>
  C4. Once the counter has reached 3, the next refresh attempt that a 401 triggers is to
  perform a full re-authentication instead of a refresh request. The code does not, for a
  client that holds no refresh token: after three refreshes, the last of which came without
  the refresh-token header, the counter is 3; \<^verbatim>\<open>_refresh_auth_token\<close> then returns
  \<^verbatim>\<open>False\<close>, which its docstring reads as "re-auth required", \<^verbatim>\<open>_request\<close> does not
  look at the value, and the call is sent again with the same access token, with neither a
  refresh request nor a token-generation request in between.
\<close>

theorem no_reauthentication_without_refresh_token:
  "priv_refresh_count worn_session = 3 \<and> priv_max_refreshes worn_session = 3 \<and>
   priv_refresh_token worn_session = None \<and>
   refresh_auth_token forgetful_server worn_session = (Inr False, worn_session) \<and>
   get forgetful_server serverversion no_kwargs worn_session =
     (Inr unauthorized,
      worn_session\<lparr>log := log worn_session @
        [RateLimiterAcquire, Http version_request_A3, Http version_request_A3]\<rparr>)"
proof -
  have r: "refresh_auth_token srv (worn_session\<lparr>log := l\<rparr>) = (Inr False, worn_session\<lparr>log := l\<rparr>)"
    for srv l
    by (simp add: refresh_auth_token_def worn_session_fields)
  have r0: "refresh_auth_token forgetful_server worn_session = (Inr False, worn_session)"
    by (simp add: refresh_auth_token_def worn_session_fields)
  have rq: "api_request ''GET'' serverversion [(''X-auth-access-token'', Str ''A3'')] no_kwargs
      = version_request_A3"
    by (simp add: api_request_def version_request_A3_def version_request_def no_kwargs_def)
  have srv: "forgetful_server tr version_request_A3 = Response unauthorized" for tr
    by (simp add: forgetful_server_def version_request_A3_def version_request_def
        is_generatetoken_def is_refreshtoken_def serverversion_def)
  let ?hs = "[(''X-auth-access-token'', Str ''A3'')]"
  let ?s1 = "worn_session\<lparr>log := log worn_session @ [RateLimiterAcquire, Http version_request_A3]\<rparr>"
  let ?s2 = "worn_session\<lparr>log := log worn_session @
        [RateLimiterAcquire, Http version_request_A3, Http version_request_A3]\<rparr>"
  have c: "priv_client worn_session" by (rule worn_session_fields)
  have hs: "?hs = set_item ''X-auth-access-token'' (of_token (priv_access_token worn_session))
      (kw_headers no_kwargs)"
    by (simp add: worn_session_fields no_kwargs_def)
  have first: "send forgetful_server ''GET'' serverversion ?hs no_kwargs
      (worn_session\<lparr>log := log worn_session @ [RateLimiterAcquire]\<rparr>) = (Inr unauthorized, ?s1)"
    by (simp add: send_eq rq srv)
  have u: "status_code unauthorized = 401" by (simp add: unauthorized_def)
  have second: "handle_401 forgetful_server ''GET'' serverversion no_kwargs ?hs unauthorized ?s1
      = (Inr (?hs, unauthorized), ?s2)"
    by (simp add: handle_401_def u r worn_session_fields send_eq rq srv)
  have "request forgetful_server ''GET'' serverversion no_kwargs worn_session =
      handle_429 forgetful_server ''GET'' serverversion no_kwargs ?hs unauthorized ?s2"
    by (rule request_unfold [OF c hs first second])
  then have "get forgetful_server serverversion no_kwargs worn_session = (Inr unauthorized, ?s2)"
    by (simp add: get_def handle_429_other u)
  then show ?thesis using r0 worn_session_fields by simp
qed

theorem no_reauthentication_without_refresh_token_witness:
  "\<not> truthy (priv_refresh_token worn_session) \<and>
   refresh_auth_token forgetful_server worn_session = (Inr False, worn_session)"
  using no_reauthentication_without_refresh_token by simp

subsection \<open>The token bucket\<close>



lemma sleeps_until_length: "sleeps_until fl l clock slept l' \<Longrightarrow> length slept = length clock"
  by (induction rule: sleeps_until.induct) auto















lemma float_of_int_0_1 [simp]: "float_of_int 0 = Some 0" "float_of_int 1 = Some 1"
  by (simp_all add: float_of_int_small)




end
